theory Spec2Isabelle
  imports Complex_Main "HOL-Library.Word" "HOL-Library.Sublist"
begin

section \<open>JavaScript values used by server.ts\<close>

text \<open>
  A JavaScript string is a sequence of 16-bit code units. ASCII literals of the source
  are written through \<open>ascii\<close>; the Cyrillic literals are spelled out as code units.
\<close>

type_synonym jsstring = "16 word list"

definition ascii :: "string \<Rightarrow> jsstring" where
  "ascii s = map (\<lambda>c. of_nat (of_char c)) s"

text \<open>
  A JavaScript number is modelled as \<open>NaN\<close> or the real value of a double; \<open>NaN\<close> is
  kept because every comparison with it is false and \<open>x || 0\<close> replaces it. Wherever
  the source reads a number from an external reply, \<open>NaN\<close> also stands for a field that
  is absent (\<open>undefined\<close> converts to \<open>NaN\<close> in every arithmetic use the handler makes
  of it). Comparisons, \<open>Math.round\<close> and \<open>toFixed\<close> work on the exact value of a
  double. A sum, a difference or a quotient of two doubles is the exact result rounded
  to a double: the rounding is the parameter \<open>fl\<close> of the operations below (for the
  run-time, the double nearest to the exact result, a tie going to the even one), and
  what is proved holds for every \<open>fl\<close>. Overflow to an infinity is left out. The
  synthetic fallback combines its random draws without rounding.
\<close>

datatype jsnum = NaN | Fin real

fun js_lt :: "jsnum \<Rightarrow> jsnum \<Rightarrow> bool" where
  "js_lt (Fin a) (Fin b) = (a < b)"
| "js_lt _ _ = False"

fun js_gt :: "jsnum \<Rightarrow> jsnum \<Rightarrow> bool" where
  "js_gt (Fin a) (Fin b) = (a > b)"
| "js_gt _ _ = False"

fun js_le :: "jsnum \<Rightarrow> jsnum \<Rightarrow> bool" where
  "js_le (Fin a) (Fin b) = (a \<le> b)"
| "js_le _ _ = False"

fun js_ge :: "jsnum \<Rightarrow> jsnum \<Rightarrow> bool" where
  "js_ge (Fin a) (Fin b) = (a \<ge> b)"
| "js_ge _ _ = False"

text \<open>Strict equality \<open>===\<close> on numbers: \<open>NaN\<close> is not equal to itself.\<close>

fun js_seq :: "jsnum \<Rightarrow> jsnum \<Rightarrow> bool" where
  "js_seq (Fin a) (Fin b) = (a = b)"
| "js_seq _ _ = False"

fun js_sub :: "(real \<Rightarrow> real) \<Rightarrow> jsnum \<Rightarrow> jsnum \<Rightarrow> jsnum" where
  "js_sub fl (Fin a) (Fin b) = Fin (fl (a - b))"
| "js_sub fl _ _ = NaN"

fun js_add :: "(real \<Rightarrow> real) \<Rightarrow> jsnum \<Rightarrow> jsnum \<Rightarrow> jsnum" where
  "js_add fl (Fin a) (Fin b) = Fin (fl (a + b))"
| "js_add fl _ _ = NaN"

section \<open>Weather-code mapping (server.ts, wmoToCondition)\<close>

definition wmoToCondition :: "jsnum \<Rightarrow> jsstring" where
  "wmoToCondition code =
    (if js_seq code (Fin 0) then ascii ''Clear''
     else if js_ge code (Fin 1) \<and> js_le code (Fin 3) then ascii ''Clouds''
     else if js_ge code (Fin 45) \<and> js_le code (Fin 48) then ascii ''Clouds''
     else if js_ge code (Fin 51) \<and> js_le code (Fin 67) then ascii ''Rain''
     else if js_ge code (Fin 71) \<and> js_le code (Fin 77) then ascii ''Snow''
     else if js_ge code (Fin 80) \<and> js_le code (Fin 82) then ascii ''Rain''
     else if js_ge code (Fin 85) \<and> js_le code (Fin 86) then ascii ''Snow''
     else if js_ge code (Fin 95) then ascii ''Thunderstorm''
     else ascii ''Unknown'')"

text \<open>The ranges tested by \<open>wmoToCondition\<close>, in the order of the source.\<close>

definition in_mapped_range :: "jsnum \<Rightarrow> bool" where
  "in_mapped_range code \<longleftrightarrow>
     js_seq code (Fin 0)
   \<or> (js_ge code (Fin 1) \<and> js_le code (Fin 3))
   \<or> (js_ge code (Fin 45) \<and> js_le code (Fin 48))
   \<or> (js_ge code (Fin 51) \<and> js_le code (Fin 67))
   \<or> (js_ge code (Fin 71) \<and> js_le code (Fin 77))
   \<or> (js_ge code (Fin 80) \<and> js_le code (Fin 82))
   \<or> (js_ge code (Fin 85) \<and> js_le code (Fin 86))
   \<or> js_ge code (Fin 95)"

definition conditions :: "jsstring set" where
  "conditions = {ascii ''Clear'', ascii ''Clouds'', ascii ''Rain'', ascii ''Snow'',
                 ascii ''Thunderstorm'', ascii ''Unknown''}"

section \<open>Seasonal norm (server.ts, getSeasonalNorm)\<close>

text \<open>
  Of a \<open>Date\<close> the handler reads the local calendar month: \<open>getMonth()\<close> is a number
  from 0 to 11, or \<open>NaN\<close> for an invalid date.
\<close>

datatype jsdate = InvalidDate | LocalDate (year: int) (month0: nat) (day: nat)

fun getMonth :: "jsdate \<Rightarrow> jsnum" where
  "getMonth InvalidDate = NaN"
| "getMonth (LocalDate y m d) = Fin (real m)"

definition getSeasonalNorm :: "jsstring \<Rightarrow> jsdate \<Rightarrow> jsnum" where
  "getSeasonalNorm crop date =
    (let month = getMonth date in
     if js_ge month (Fin 10) \<or> js_le month (Fin 2) then Fin 0.2
     else if js_ge month (Fin 3) \<and> js_le month (Fin 4) then Fin 0.45
     else if js_ge month (Fin 5) \<and> js_le month (Fin 7) then Fin 0.8
     else Fin 0.5)"

section \<open>Weather snapshot and stress cause (server.ts, stressCause)\<close>

record weather =
  temp :: jsnum
  condition :: jsstring
  humidity :: jsnum
  wind :: jsnum
  rain_14d :: jsnum

text \<open>The six labels of the source, as UTF-16 code units (Russian text).\<close>

definition label_no_stress :: jsstring where
  \<comment> \<open>"Net yavnogo stressa"\<close>
  "label_no_stress = [0x41D, 0x435, 0x442, 0x20, 0x44F, 0x432, 0x43D, 0x43E, 0x433, 0x43E,
     0x20, 0x441, 0x442, 0x440, 0x435, 0x441, 0x441, 0x430]"

definition label_drought :: jsstring where
  \<comment> \<open>"Defitsit vlagi"\<close>
  "label_drought = [0x414, 0x435, 0x444, 0x438, 0x446, 0x438, 0x442, 0x20, 0x432, 0x43B,
     0x430, 0x433, 0x438]"

definition label_heat :: jsstring where
  \<comment> \<open>"Teplovoy stress"\<close>
  "label_heat = [0x422, 0x435, 0x43F, 0x43B, 0x43E, 0x432, 0x43E, 0x439, 0x20, 0x441, 0x442,
     0x440, 0x435, 0x441, 0x441]"

definition label_disease :: jsstring where
  \<comment> \<open>"Risk zabolevaniy (Vlazhnost)"\<close>
  "label_disease = [0x420, 0x438, 0x441, 0x43A, 0x20, 0x437, 0x430, 0x431, 0x43E, 0x43B,
     0x435, 0x432, 0x430, 0x43D, 0x438, 0x439, 0x20, 0x28, 0x412, 0x43B, 0x430, 0x436, 0x43D,
     0x43E, 0x441, 0x442, 0x44C, 0x29]"

definition label_freeze :: jsstring where
  \<comment> \<open>"Risk vymerzaniya"\<close>
  "label_freeze = [0x420, 0x438, 0x441, 0x43A, 0x20, 0x432, 0x44B, 0x43C, 0x435, 0x440,
     0x437, 0x430, 0x43D, 0x438, 0x44F]"

definition label_delay :: jsstring where
  \<comment> \<open>"Zaderzhka vegetatsii / Pitanie"\<close>
  "label_delay = [0x417, 0x430, 0x434, 0x435, 0x440, 0x436, 0x43A, 0x430, 0x20, 0x432,
     0x435, 0x433, 0x435, 0x442, 0x430, 0x446, 0x438, 0x438, 0x20, 0x2F, 0x20, 0x41F, 0x438,
     0x442, 0x430, 0x43D, 0x438, 0x435]"

definition stressCause :: "jsnum \<Rightarrow> weather \<Rightarrow> jsnum \<Rightarrow> jsstring" where
  "stressCause ndviDeviation w ndvi_average =
    (if js_lt ndviDeviation (Fin (- 0.15)) then
       (if js_lt (rain_14d w) (Fin 5) \<and> js_gt (temp w) (Fin 25) then label_drought
        else if js_gt (temp w) (Fin 30) then label_heat
        else if js_gt (humidity w) (Fin 85) then label_disease
        else if js_lt (temp w) (Fin 0) \<and> js_gt ndvi_average (Fin 0.3) then label_freeze
        else label_delay)
     else label_no_stress)"


section \<open>Values of request bodies and of parsed JSON\<close>

datatype jsval =
    JUndefined
  | JNull
  | JBool bool
  | JNumber jsnum
  | JString jsstring
  | JArray "jsval list"
  | JObject "(jsstring \<times> jsval) list"

text \<open>ToBoolean, as used by \<open>!x\<close>, \<open>x || y\<close> and \<open>if (x)\<close>.\<close>

fun truthy :: "jsval \<Rightarrow> bool" where
  "truthy JUndefined = False"
| "truthy JNull = False"
| "truthy (JBool b) = b"
| "truthy (JNumber NaN) = False"
| "truthy (JNumber (Fin x)) = (x \<noteq> 0)"
| "truthy (JString s) = (s \<noteq> [])"
| "truthy (JArray xs) = True"
| "truthy (JObject kvs) = True"

text \<open>An environment variable or optional string: absent, or a string that may be empty.\<close>

fun truthy_str :: "jsstring option \<Rightarrow> bool" where
  "truthy_str None = False"
| "truthy_str (Some s) = (s \<noteq> [])"

text \<open>The result of awaiting a call to an external service.\<close>

datatype 'a outcome = Rejected | Resolved 'a

section \<open>Geo-coordinate adapter (server.ts, lines 37-78)\<close>

text \<open>
  A frontend vertex is a pair \<open>[lat, lon]\<close>; a GeoJSON position is a pair \<open>[lon, lat]\<close>.
\<close>

type_synonym vertex = "jsnum \<times> jsnum"

record geo_polygon =
  polygon_type :: jsstring
  polygon_coordinates :: "vertex list list"

record geo_point =
  point_type :: jsstring
  point_coordinates :: vertex

record latlon =
  lat :: jsnum
  lon :: jsnum

definition closed_ring :: "vertex list \<Rightarrow> bool" where
  "closed_ring coordinates \<longleftrightarrow>
     js_seq (fst (coordinates ! 0)) (fst (coordinates ! (length coordinates - 1)))
   \<and> js_seq (snd (coordinates ! 0)) (snd (coordinates ! (length coordinates - 1)))"

definition toGeoJSONPolygon :: "vertex list \<Rightarrow> geo_polygon option" where
  "toGeoJSONPolygon points =
    (if length points < 3 then None
     else
       let coordinates = map (\<lambda>p. (snd p, fst p)) points;
           coordinates' = (if \<not> closed_ring coordinates
                           then coordinates @ [coordinates ! 0] else coordinates)
       in Some \<lparr>polygon_type = ascii ''Polygon'', polygon_coordinates = [coordinates']\<rparr>)"

fun fromGeoJSONPolygon :: "geo_polygon option \<Rightarrow> vertex list" where
  "fromGeoJSONPolygon None = []"
| "fromGeoJSONPolygon (Some geoJSON) =
    (case polygon_coordinates geoJSON of
       [] \<Rightarrow> []
     | ring # _ \<Rightarrow> map (\<lambda>p. (snd p, fst p)) ring)"

definition toGeoJSONPoint :: "jsnum \<Rightarrow> jsnum \<Rightarrow> geo_point" where
  "toGeoJSONPoint la lo = \<lparr>point_type = ascii ''Point'', point_coordinates = (lo, la)\<rparr>"

fun fromGeoJSONPoint :: "geo_point option \<Rightarrow> latlon" where
  "fromGeoJSONPoint None = \<lparr>lat = Fin 0, lon = Fin 0\<rparr>"
| "fromGeoJSONPoint (Some geoJSON) =
    \<lparr>lat = snd (point_coordinates geoJSON), lon = fst (point_coordinates geoJSON)\<rparr>"

section \<open>Weather lookup (server.ts, lines 504-552)\<close>

record meteo_current =
  temperature_2m :: jsnum
  relative_humidity_2m :: jsnum
  wind_speed_10m :: jsnum
  weather_code :: jsnum

text \<open>
  \<open>precipitation_sum\<close> is \<open>None\<close> when the reply has no such array (calling
  \<open>reduce\<close> then raises); an element is \<open>None\<close> for a JSON \<open>null\<close>.
\<close>

record meteo_daily =
  precipitation_sum :: "jsnum option list option"

record meteo_data =
  current :: "meteo_current option"
  daily :: "meteo_daily option"

fun Math_round :: "jsnum \<Rightarrow> jsnum" where
  "Math_round NaN = NaN"
| "Math_round (Fin x) = Fin (of_int \<lfloor>x + 1 / 2\<rfloor>)"

text \<open>
  \<open>parseFloat(x.toFixed(1))\<close>: the magnitude is rounded to one decimal, a tie going to
  the larger digit; from \<open>10^21\<close> on \<open>toFixed\<close> prints the number itself.
\<close>

fun toFixed1 :: "jsnum \<Rightarrow> jsnum" where
  "toFixed1 NaN = NaN"
| "toFixed1 (Fin x) =
    (if \<bar>x\<bar> \<ge> 10 ^ 21 then Fin x
     else Fin ((if x < 0 then - 1 else 1) * of_int \<lfloor>\<bar>x\<bar> * 10 + 1 / 2\<rfloor> / 10))"

text \<open>
  Division by a non-zero constant (the handler divides by the double of the literal 3.6
  only); a zero divisor, which gives an infinity or \<open>NaN\<close> in JavaScript, is outside this
  model of numbers.
\<close>

fun js_div :: "(real \<Rightarrow> real) \<Rightarrow> jsnum \<Rightarrow> jsnum \<Rightarrow> jsnum" where
  "js_div fl (Fin a) (Fin b) = (if b = 0 then NaN else Fin (fl (a / b)))"
| "js_div fl _ _ = NaN"

text \<open>\<open>a || 0\<close> on the accumulator, and \<open>b || 0\<close> on an element that may be \<open>null\<close>.\<close>

fun or_zero :: "jsnum \<Rightarrow> jsnum" where
  "or_zero NaN = Fin 0"
| "or_zero (Fin x) = (if x = 0 then Fin 0 else Fin x)"

fun or_zero_elem :: "jsnum option \<Rightarrow> jsnum" where
  "or_zero_elem None = Fin 0"
| "or_zero_elem (Some b) = or_zero b"

definition rainSum :: "(real \<Rightarrow> real) \<Rightarrow> jsnum option list \<Rightarrow> jsnum" where
  "rainSum fl ps = foldl (\<lambda>a b. js_add fl (or_zero a) (or_zero_elem b)) (Fin 0) ps"

definition synthetic_weather :: "jsdate \<Rightarrow> weather" where
  "synthetic_weather currentMonth =
    (let month = getMonth currentMonth;
         isWinter = (js_ge month (Fin 10) \<or> js_le month (Fin 2));
         isSummer = (js_ge month (Fin 5) \<and> js_le month (Fin 7))
     in \<lparr>temp = (if isWinter then Fin (- 5) else if isSummer then Fin 25 else Fin 10),
         condition = (if isWinter then ascii ''Snow''
                      else if isSummer then ascii ''Clear'' else ascii ''Clouds''),
         humidity = Fin 60,
         wind = Fin 5,
         rain_14d = Fin 0\<rparr>)"

text \<open>
  The \<open>try\<close> block: a rejected request, a reply without \<open>daily.precipitation_sum\<close> or
  without \<open>current\<close> raises, and the \<open>catch\<close> block answers.
\<close>

definition weather_lookup ::
  "(real \<Rightarrow> real) \<Rightarrow> jsdate \<Rightarrow> meteo_data outcome \<Rightarrow> weather" where
  "weather_lookup fl currentMonth weatherRes =
    (case weatherRes of
       Rejected \<Rightarrow> synthetic_weather currentMonth
     | Resolved d \<Rightarrow>
        (case daily d of
           None \<Rightarrow> synthetic_weather currentMonth
         | Some dl \<Rightarrow>
            (case precipitation_sum dl of
               None \<Rightarrow> synthetic_weather currentMonth
             | Some ps \<Rightarrow>
                (case current d of
                   None \<Rightarrow> synthetic_weather currentMonth
                 | Some c \<Rightarrow>
                    \<lparr>temp = Math_round (temperature_2m c),
                     condition = wmoToCondition (weather_code c),
                     humidity = Math_round (relative_humidity_2m c),
                     wind = toFixed1 (js_div fl (wind_speed_10m c) (Fin (fl 3.6))),
                     rain_14d = Math_round (rainSum fl ps)\<rparr>))))"

text \<open>
  What the spec says of the trailing precipitation: the daily values are summed, from
  the first to the last and in the arithmetic of doubles, a missing one counting as
  zero.
\<close>

fun present_or_zero :: "jsnum option \<Rightarrow> real" where
  "present_or_zero (Some (Fin x)) = x"
| "present_or_zero _ = 0"

definition spec_rain_total :: "(real \<Rightarrow> real) \<Rightarrow> jsnum option list \<Rightarrow> real" where
  "spec_rain_total fl ps = foldl (\<lambda>a b. fl (a + present_or_zero b)) 0 ps"

text \<open>A snapshot of the weather none of whose readings is missing.\<close>

definition weather_complete :: "weather \<Rightarrow> bool" where
  "weather_complete w \<longleftrightarrow>
     temp w \<noteq> NaN \<and> humidity w \<noteq> NaN \<and> wind w \<noteq> NaN \<and> rain_14d w \<noteq> NaN
   \<and> condition w \<in> conditions"

text \<open>
  A transport or parse failure: the request is rejected, or the reply lacks \<open>current\<close>
  or the array \<open>daily.precipitation_sum\<close>.
\<close>

definition reply_unusable :: "meteo_data outcome \<Rightarrow> bool" where
  "reply_unusable res \<longleftrightarrow>
    (case res of
       Rejected \<Rightarrow> True
     | Resolved d \<Rightarrow>
         current d = None
       \<or> (case daily d of None \<Rightarrow> True | Some dl \<Rightarrow> precipitation_sum dl = None))"


section \<open>Imagery lookup and synthetic fallback (server.ts, lines 415-478)\<close>

record env =
  COPERNICUS_USER :: "jsstring option"
  COPERNICUS_PASS :: "jsstring option"
  GROQ_API_KEY :: "jsstring option"
  GEMINI_API_KEY :: "jsstring option"

record content_date =
  Start :: jsstring

record product =
  Id :: jsstring
  ContentDate :: "content_date option"

text \<open>The reply of the catalogue search: \<open>data.value\<close>, absent or a list of products.\<close>

record search_data =
  search_value :: "product list option"

record analysis_base =
  ndvi_average :: jsnum
  healthy_percent :: jsnum
  moderate_percent :: jsnum
  stressed_percent :: jsnum
  alert :: bool
  map_url :: "jsstring option"
  product_id :: "jsstring option"
  acquisition_date :: "jsstring option"

text \<open>The five calls of \<open>Math.random()\<close> of the fallback, in the order of the source.\<close>

record draws =
  r_ndvi :: real
  r_healthy :: real
  r_moderate :: real
  r_stressed :: real
  r_alert :: real

definition random_ok :: "draws \<Rightarrow> bool" where
  "random_ok r \<longleftrightarrow>
     0 \<le> r_ndvi r \<and> r_ndvi r < 1 \<and> 0 \<le> r_healthy r \<and> r_healthy r < 1
   \<and> 0 \<le> r_moderate r \<and> r_moderate r < 1 \<and> 0 \<le> r_stressed r \<and> r_stressed r < 1
   \<and> 0 \<le> r_alert r \<and> r_alert r < 1"

definition quicklookUrl :: "jsstring \<Rightarrow> jsstring" where
  "quicklookUrl pid =
     ascii ''https://catalogue.dataspace.copernicus.eu/odata/v1/Products('' @ pid
     @ ascii '')/$value''"

text \<open>
  The \<open>try\<close> block of the imagery lookup: \<open>None\<close> is \<open>analysisResult = null\<close> of the
  \<open>catch\<close> block (a rejected token or search request, no product, or a product
  without \<open>ContentDate\<close>).
\<close>

definition copernicus_lookup ::
  "unit outcome \<Rightarrow> search_data outcome \<Rightarrow> analysis_base option" where
  "copernicus_lookup tokenRes searchRes =
    (case tokenRes of
       Rejected \<Rightarrow> None
     | Resolved _ \<Rightarrow>
        (case searchRes of
           Rejected \<Rightarrow> None
         | Resolved sd \<Rightarrow>
            (case search_value sd of
               None \<Rightarrow> None
             | Some [] \<Rightarrow> None
             | Some (p # _) \<Rightarrow>
                (case ContentDate p of
                   None \<Rightarrow> None
                 | Some cd \<Rightarrow>
                    Some \<lparr>ndvi_average = Fin 0.62,
                          healthy_percent = Fin 75,
                          moderate_percent = Fin 15,
                          stressed_percent = Fin 10,
                          alert = False,
                          map_url = Some (quicklookUrl (Id p)),
                          product_id = Some (Id p),
                          acquisition_date = Some (Start cd)\<rparr>))))"

definition fallback_base :: "draws \<Rightarrow> analysis_base" where
  "fallback_base r =
    \<lparr>ndvi_average = Fin (0.58 + r_ndvi r * 0.2),
     healthy_percent = Fin (65 + r_healthy r * 20),
     moderate_percent = Fin (20 + r_moderate r * 10),
     stressed_percent = Fin (5 + r_stressed r * 5),
     alert = (r_alert r > 0.8),
     map_url = None,
     product_id = None,
     acquisition_date = None\<rparr>"

definition imagery_configured :: "env \<Rightarrow> bool" where
  "imagery_configured e \<longleftrightarrow> truthy_str (COPERNICUS_USER e) \<and> truthy_str (COPERNICUS_PASS e)"

definition analysis_base_of ::
  "env \<Rightarrow> unit outcome \<Rightarrow> search_data outcome \<Rightarrow> draws \<Rightarrow> analysis_base" where
  "analysis_base_of e tokenRes searchRes r =
    (case (if imagery_configured e then copernicus_lookup tokenRes searchRes else None) of
       Some b \<Rightarrow> b
     | None \<Rightarrow> fallback_base r)"

section \<open>AI insight (server.ts, lines 563-617)\<close>

definition status_title_text :: jsstring where
  \<comment> \<open>"Analiz zavershen"\<close>
  "status_title_text = [0x410, 0x43D, 0x430, 0x43B, 0x438, 0x437, 0x20, 0x437, 0x430, 0x432,
     0x435, 0x440, 0x448, 0x435, 0x43D]"

definition summary_text :: jsstring where
  \<comment> \<open>"Dannye obrabotany."\<close>
  "summary_text = [0x414, 0x430, 0x43D, 0x43D, 0x44B, 0x435, 0x20, 0x43E, 0x431, 0x440,
     0x430, 0x431, 0x43E, 0x442, 0x430, 0x43D, 0x44B, 0x2E]"

definition weather_impact_text :: jsstring where
  \<comment> \<open>"Net dannykh."\<close>
  "weather_impact_text = [0x41D, 0x435, 0x442, 0x20, 0x434, 0x430, 0x43D, 0x43D, 0x44B,
     0x445, 0x2E]"

definition placeholder_insight :: jsval where
  "placeholder_insight = JObject
     [(ascii ''status_title'', JString status_title_text),
      (ascii ''summary'', JString summary_text),
      (ascii ''weather_impact'', JString weather_impact_text),
      (ascii ''recommendations'', JArray [])]"

text \<open>The code-fence markers of the regular expression: three backticks, and three
  backticks followed by \<open>json\<close>.\<close>

definition fence :: jsstring where
  "fence = [0x60, 0x60, 0x60]"

definition fence_json :: jsstring where
  "fence_json = [0x60, 0x60, 0x60, 0x6A, 0x73, 0x6F, 0x6E]"

text \<open>
  \<open>text.replace(/```json|```/g, '')\<close>: the text is scanned from the left; where one of
  the alternatives matches (the longer is tried first) the match is dropped and the scan
  goes on after it, otherwise the code unit is kept.
\<close>

function strip_fences :: "jsstring \<Rightarrow> jsstring" where
  "strip_fences [] = []"
| "strip_fences (c # cs) =
    (if prefix fence_json (c # cs) then strip_fences (drop 7 (c # cs))
     else if prefix fence (c # cs) then strip_fences (drop 3 (c # cs))
     else c # strip_fences cs)"
  by pat_completeness auto
termination
  by (relation "measure length") auto

text \<open>White space and line terminators removed by \<open>String.prototype.trim\<close>.\<close>

definition is_ws :: "16 word \<Rightarrow> bool" where
  "is_ws c \<longleftrightarrow> c \<in> {0x9, 0xA, 0xB, 0xC, 0xD, 0x20, 0xA0, 0x1680, 0x2028, 0x2029, 0x202F,
                    0x205F, 0x3000, 0xFEFF}
              \<or> (0x2000 \<le> c \<and> c \<le> 0x200A)"

definition trim :: "jsstring \<Rightarrow> jsstring" where
  "trim s = rev (dropWhile is_ws (rev (dropWhile is_ws s)))"

definition has_fence :: "jsstring \<Rightarrow> bool" where
  "has_fence s \<longleftrightarrow> sublist fence s"

record groq_message =
  content :: "jsstring option"

record groq_choice =
  message :: "groq_message option"

text \<open>\<open>choices\<close> is \<open>None\<close> when the completion has no such array (indexing it raises).\<close>

record groq_completion =
  choices :: "groq_choice list option"

record gemini_response =
  response_text :: "jsstring option"

text \<open>\<open>completion.choices[0]?.message?.content || ""\<close>; \<open>None\<close> when it raises.\<close>

definition groq_content :: "groq_completion \<Rightarrow> jsstring option" where
  "groq_content completion =
    (case choices completion of
       None \<Rightarrow> None
     | Some [] \<Rightarrow> Some []
     | Some (c # _) \<Rightarrow>
        (case message c of
           None \<Rightarrow> Some []
         | Some m \<Rightarrow> (case content m of None \<Rightarrow> Some [] | Some t \<Rightarrow> Some t)))"

text \<open>
  The text handed to \<open>JSON.parse\<close>; \<open>None\<close> when a provider call raises before the
  parse is reached.
\<close>

definition rawResponse ::
  "env \<Rightarrow> groq_completion outcome \<Rightarrow> gemini_response outcome \<Rightarrow> jsstring option" where
  "rawResponse e groqRes geminiRes =
    (if truthy_str (GROQ_API_KEY e) then
       (case groqRes of Rejected \<Rightarrow> None | Resolved completion \<Rightarrow> groq_content completion)
     else if truthy_str (GEMINI_API_KEY e) then
       (case geminiRes of
          Rejected \<Rightarrow> None
        | Resolved response \<Rightarrow>
           (case response_text response of
              None \<Rightarrow> Some []
            | Some t \<Rightarrow> (if t \<noteq> [] then Some (trim (strip_fences t)) else Some [])))
     else Some [])"

text \<open>
  \<open>JSON.parse\<close> is a parameter: \<open>None\<close> is a \<open>SyntaxError\<close>. The insight keeps its
  initial placeholder unless the parse returns a value.
\<close>

definition aiInsight ::
  "(jsstring \<Rightarrow> jsval option) \<Rightarrow> env \<Rightarrow> groq_completion outcome
     \<Rightarrow> gemini_response outcome \<Rightarrow> jsval" where
  "aiInsight JSON_parse e groqRes geminiRes =
    (case rawResponse e groqRes geminiRes of
       None \<Rightarrow> placeholder_insight
     | Some raw \<Rightarrow>
        (case JSON_parse raw of
           None \<Rightarrow> placeholder_insight
         | Some v \<Rightarrow> v))"


section \<open>The store (supabase_schema.sql)\<close>

record analysis_result = analysis_base +
  ai_insight :: jsval
  result_weather :: weather
  stress_cause :: jsstring
  ndvi_deviation :: jsnum
  seasonal_norm :: jsnum

text \<open>
  The \<open>last_analysis\<close> column of a field: \<open>Initial d\<close> is the literal written when the
  field is created (index average and the three percentages 0, alert false, date \<open>d\<close>);
  \<open>Analysed r d\<close> is \<open>{...analysisResult, date: d}\<close> written by an analysis.
\<close>

datatype snapshot = Initial jsstring | Analysed analysis_result jsstring

record field_row =
  user_id :: jsstring
  name :: jsstring
  location :: geo_point
  polygon :: "geo_polygon option"
  area_hectares :: jsnum
  crop_type :: jsstring
  last_analysis :: snapshot

record analysis_row =
  row_field_id :: jsstring
  row_ndvi_average :: jsnum
  row_healthy_percent :: jsnum
  row_moderate_percent :: jsnum
  row_stressed_percent :: jsnum
  weather_data :: weather
  row_ai_insight :: jsval

text \<open>
  The \<open>details\<close> text of a log entry is a template over these arguments; the area of a
  new field is the value of the request as it came (absent when the request has none).
\<close>

datatype details =
    CreateDetails jsstring "jsnum option"
  | DeleteDetails jsstring
  | AnalysisDetails jsstring jsnum

record activity =
  log_user_id :: jsstring
  log_type :: jsstring
  log_details :: details

text \<open>
  Rows of the \<open>fields\<close> table are keyed by their primary key; analyses and log entries are kept in the order
  of their insertion (the order of \<open>created_at\<close>).
\<close>

record store =
  field_rows :: "jsstring \<rightharpoonup> field_row"
  analyses :: "analysis_row list"
  activity_log :: "activity list"

definition empty_store :: store where
  "empty_store = \<lparr>field_rows = Map.empty, analyses = [], activity_log = []\<rparr>"

text \<open>
  Row-level security: with the caller's token a row of the \<open>fields\<close> table is visible and
  updatable when its \<open>user_id\<close> is the caller; an id that is not a string names no row.
\<close>

definition select_field :: "jsstring \<Rightarrow> jsval \<Rightarrow> store \<Rightarrow> (jsstring \<times> field_row) option" where
  "select_field uid fid s =
    (case fid of
       JString k \<Rightarrow>
        (case field_rows s k of
           None \<Rightarrow> None
         | Some f \<Rightarrow> if user_id f = uid then Some (k, f) else None)
     | _ \<Rightarrow> None)"

text \<open>
  An insert into \<open>analyses\<close> passes its policy (and the foreign key) when the field
  exists and belongs to the caller; \<open>ok\<close> is false when the request itself fails.
\<close>

definition insert_analysis ::
  "bool \<Rightarrow> jsstring \<Rightarrow> jsval \<Rightarrow> (jsstring \<Rightarrow> analysis_row) \<Rightarrow> store \<Rightarrow> store" where
  "insert_analysis ok uid fid row s =
    (case select_field uid fid s of
       None \<Rightarrow> s
     | Some (k, f) \<Rightarrow> if ok then s\<lparr>analyses := analyses s @ [row k]\<rparr> else s)"

definition update_last_analysis ::
  "bool \<Rightarrow> jsstring \<Rightarrow> jsval \<Rightarrow> snapshot \<Rightarrow> store \<Rightarrow> store" where
  "update_last_analysis ok uid fid snap s =
    (case select_field uid fid s of
       None \<Rightarrow> s
     | Some (k, f) \<Rightarrow>
        if ok then s\<lparr>field_rows := (field_rows s)(k \<mapsto> f\<lparr>last_analysis := snap\<rparr>)\<rparr> else s)"

definition insert_activity :: "bool \<Rightarrow> activity \<Rightarrow> store \<Rightarrow> store" where
  "insert_activity ok entry s =
    (if ok then s\<lparr>activity_log := activity_log s @ [entry]\<rparr> else s)"

section \<open>Field routes (server.ts, lines 304-400)\<close>

record create_body =
  c_name :: jsstring
  c_lat :: jsnum
  c_lon :: jsnum
  c_coordinates :: "latlon option"
  c_area_hectares :: "jsnum option"
  c_crop_type :: "jsstring option"
  c_polygon :: "vertex list option"

text \<open>
  What the route takes from outside: the key drawn by \<open>gen_random_uuid()\<close>, the clock,
  and whether the two requests to the store go through.
\<close>

record create_ext =
  new_id :: jsstring
  created_date :: jsstring
  field_insert_ok :: bool
  create_log_ok :: bool

definition wheat :: jsstring where
  \<comment> \<open>"Pshenitsa"\<close>
  "wheat = [0x41F, 0x448, 0x435, 0x43D, 0x438, 0x446, 0x430]"

definition newField :: "jsstring \<Rightarrow> create_body \<Rightarrow> jsstring \<Rightarrow> field_row" where
  "newField uid b d =
    (let finalLat = (case c_coordinates b of None \<Rightarrow> c_lat b | Some c \<Rightarrow> lat c);
         finalLon = (case c_coordinates b of None \<Rightarrow> c_lon b | Some c \<Rightarrow> lon c)
     in \<lparr>user_id = uid,
         name = c_name b,
         location = toGeoJSONPoint finalLat finalLon,
         polygon = (case c_polygon b of None \<Rightarrow> None | Some pts \<Rightarrow> toGeoJSONPolygon pts),
         area_hectares = or_zero_elem (c_area_hectares b),
         crop_type = (case c_crop_type b of
                        None \<Rightarrow> wheat
                      | Some c \<Rightarrow> if c \<noteq> [] then c else wheat),
         last_analysis = Initial d\<rparr>)"

text \<open>
  The insert fails when the request fails or the key is taken (primary key); \<open>Inl\<close>
  is the error response, whose status the model does not tell apart (500, or 503 when
  the tables are missing).
\<close>

definition create_field ::
  "jsstring \<Rightarrow> create_body \<Rightarrow> create_ext \<Rightarrow> store \<Rightarrow> (nat + field_row) \<times> store" where
  "create_field uid b x s =
    (if \<not> field_insert_ok x \<or> new_id x \<in> dom (field_rows s) then (Inl 500, s)
     else
       let row = newField uid b (created_date x);
           s1 = s\<lparr>field_rows := (field_rows s)(new_id x \<mapsto> row)\<rparr>;
           s2 = insert_activity (create_log_ok x)
                  \<lparr>log_user_id = uid, log_type = ascii ''create_field'',
                   log_details = CreateDetails (c_name b) (c_area_hectares b)\<rparr> s1
       in (Inr row, s2))"

text \<open>
  Deleting a field removes the caller's row with that key, and with it the analyses that
  reference it (\<open>on delete cascade\<close>).
\<close>

definition delete_field :: "jsstring \<Rightarrow> jsstring \<Rightarrow> bool \<Rightarrow> bool \<Rightarrow> store \<Rightarrow> (nat + bool) \<times> store" where
  "delete_field uid k delete_ok log_ok s =
    (if \<not> delete_ok then (Inl 500, s)
     else
       let s1 = (case field_rows s k of
                   None \<Rightarrow> s
                 | Some f \<Rightarrow>
                    if user_id f = uid
                    then s\<lparr>field_rows := (field_rows s)(k := None),
                           analyses := filter (\<lambda>a. row_field_id a \<noteq> k) (analyses s)\<rparr>
                    else s);
           s2 = insert_activity log_ok
                  \<lparr>log_user_id = uid, log_type = ascii ''delete_field'',
                   log_details = DeleteDetails k\<rparr> s1
       in (Inr True, s2))"


section \<open>The analysis handler (server.ts, lines 402-658)\<close>

record analyze_body =
  field_id :: jsval
  req_lat :: jsval
  req_lon :: jsval
  date_from :: jsval
  date_to :: jsval

text \<open>
  What the handler takes from outside, in the order in which it asks: the two replies of
  the imagery provider, the random draws, the clock, the reply of the weather provider,
  the replies of the two language-model providers, \<open>JSON.parse\<close>, the time stamp of the
  snapshot, and whether each of the three writes goes through; and the rounding of the
  run-time's arithmetic of doubles. Awaiting a query of the store gives a pair of data
  and error, and the handler never looks at the error.
\<close>

record analyze_ext =
  rounding :: "real \<Rightarrow> real"
  tokenRes :: "unit outcome"
  searchRes :: "search_data outcome"
  random :: draws
  currentMonth :: jsdate
  weatherRes :: "meteo_data outcome"
  groqRes :: "groq_completion outcome"
  geminiRes :: "gemini_response outcome"
  JSON_parse :: "jsstring \<Rightarrow> jsval option"
  snapshot_date :: jsstring
  analysis_insert_ok :: bool
  field_update_ok :: bool
  analysis_log_ok :: bool

text \<open>\<open>Success r\<close> is \<open>{...r, success: true}\<close>; \<open>Failure st msg\<close> is the status \<open>st\<close>
  with \<open>{error: msg, success: false}\<close>.\<close>

datatype response = Success analysis_result | Failure nat jsstring

definition required_message :: jsstring where
  "required_message = ascii ''Latitude and Longitude are required for analysis.''"

definition unknown_crop :: jsstring where
  \<comment> \<open>"Neizvestnaya kultura"\<close>
  "unknown_crop = [0x41D, 0x435, 0x438, 0x437, 0x432, 0x435, 0x441, 0x442, 0x43D, 0x430,
     0x44F, 0x20, 0x43A, 0x443, 0x43B, 0x44C, 0x442, 0x443, 0x440, 0x430]"

definition analysisResult :: "env \<Rightarrow> jsstring \<Rightarrow> analyze_body \<Rightarrow> analyze_ext \<Rightarrow> store \<Rightarrow> analysis_result" where
  "analysisResult e uid body x s =
    (let base = analysis_base_of e (tokenRes x) (searchRes x) (random x);
         fieldData = select_field uid (field_id body) s;
         cropType = (case fieldData of
                       None \<Rightarrow> unknown_crop
                     | Some (k, f) \<Rightarrow> if crop_type f \<noteq> [] then crop_type f else unknown_crop);
         seasonalNorm = getSeasonalNorm cropType (currentMonth x);
         ndviDeviation = js_sub (rounding x) (ndvi_average base) seasonalNorm;
         w = weather_lookup (rounding x) (currentMonth x) (weatherRes x);
         cause = stressCause ndviDeviation w (ndvi_average base);
         insight = aiInsight (JSON_parse x) e (groqRes x) (geminiRes x)
     in analysis_base.extend base
          (analysis_result.fields insight w cause ndviDeviation seasonalNorm))"

definition analysis_row_of :: "analysis_result \<Rightarrow> jsstring \<Rightarrow> analysis_row" where
  "analysis_row_of r k =
    \<lparr>row_field_id = k,
     row_ndvi_average = ndvi_average r,
     row_healthy_percent = healthy_percent r,
     row_moderate_percent = moderate_percent r,
     row_stressed_percent = stressed_percent r,
     weather_data = result_weather r,
     row_ai_insight = ai_insight r\<rparr>"

definition analyze ::
  "env \<Rightarrow> jsstring \<Rightarrow> analyze_body \<Rightarrow> analyze_ext \<Rightarrow> store \<Rightarrow> response \<times> store" where
  "analyze e uid body x s =
    (if \<not> truthy (req_lat body) \<or> \<not> truthy (req_lon body)
     then (Failure 500 required_message, s)
     else
       let r = analysisResult e uid body x s;
           fieldName = (case select_field uid (field_id body) s of
                          None \<Rightarrow> ascii ''Unknown Field''
                        | Some (k, f) \<Rightarrow> if name f \<noteq> [] then name f
                                         else ascii ''Unknown Field'');
           s1 = insert_analysis (analysis_insert_ok x) uid (field_id body)
                  (analysis_row_of r) s;
           s2 = update_last_analysis (field_update_ok x) uid (field_id body)
                  (Analysed r (snapshot_date x)) s1;
           s3 = insert_activity (analysis_log_ok x)
                  \<lparr>log_user_id = uid, log_type = ascii ''analysis'',
                   log_details = AnalysisDetails fieldName (ndvi_average r)\<rparr> s2
       in (Success r, s3))"

section \<open>The routes as interleaved steps, and the properties stated of the store\<close>

text \<open>
  A handler awaits each of its writes, so the writes of requests in flight interleave.
  A task is what a request in flight has still to write: the insert of the analysis
  (then the update of the field, then the log entry), the update of the field (then the
  log entry), or a log entry. The analysis tasks carry the caller, the field id of the
  request, the result and the field name, all fixed before the first write.
\<close>

datatype task =
    InsertAnalysis jsstring jsval analysis_result jsstring
  | UpdateField jsstring jsval analysis_result jsstring
  | WriteLog activity

record system =
  db :: store
  tasks :: "task list"

definition init_system :: system where
  "init_system = \<lparr>db = empty_store, tasks = []\<rparr>"

definition fieldName_of :: "jsstring \<Rightarrow> jsval \<Rightarrow> store \<Rightarrow> jsstring" where
  "fieldName_of uid fid s =
    (case select_field uid fid s of
       None \<Rightarrow> ascii ''Unknown Field''
     | Some (k, f) \<Rightarrow> if name f \<noteq> [] then name f else ascii ''Unknown Field'')"

text \<open>
  A request for an analysis: rejected at validation it leaves nothing to do; otherwise
  the field is read (the only read of the store), the result is computed, and the three
  writes are still to come.
\<close>

definition start_analyze ::
  "env \<Rightarrow> jsstring \<Rightarrow> analyze_body \<Rightarrow> analyze_ext \<Rightarrow> system \<Rightarrow> system" where
  "start_analyze e uid body x \<sigma> =
    (if \<not> truthy (req_lat body) \<or> \<not> truthy (req_lon body) then \<sigma>
     else \<sigma>\<lparr>tasks := tasks \<sigma> @
            [InsertAnalysis uid (field_id body) (analysisResult e uid body x (db \<sigma>))
               (fieldName_of uid (field_id body) (db \<sigma>))]\<rparr>)"

text \<open>A request to create a field: the insert, with the log entry still to come.\<close>

definition start_create :: "jsstring \<Rightarrow> create_body \<Rightarrow> create_ext \<Rightarrow> system \<Rightarrow> system" where
  "start_create uid b x \<sigma> =
    (if \<not> field_insert_ok x \<or> new_id x \<in> dom (field_rows (db \<sigma>)) then \<sigma>
     else
       \<lparr>db = (db \<sigma>)\<lparr>field_rows :=
               (field_rows (db \<sigma>))(new_id x \<mapsto> newField uid b (created_date x))\<rparr>,
        tasks = tasks \<sigma> @
          [WriteLog \<lparr>log_user_id = uid, log_type = ascii ''create_field'',
                     log_details = CreateDetails (c_name b) (c_area_hectares b)\<rparr>]\<rparr>)"

definition delete_rows :: "jsstring \<Rightarrow> jsstring \<Rightarrow> store \<Rightarrow> store" where
  "delete_rows uid k s =
    (case field_rows s k of
       None \<Rightarrow> s
     | Some f \<Rightarrow>
        if user_id f = uid
        then s\<lparr>field_rows := (field_rows s)(k := None),
               analyses := filter (\<lambda>a. row_field_id a \<noteq> k) (analyses s)\<rparr>
        else s)"

text \<open>A request to delete a field: the delete, with the log entry still to come.\<close>

definition start_delete :: "jsstring \<Rightarrow> jsstring \<Rightarrow> bool \<Rightarrow> system \<Rightarrow> system" where
  "start_delete uid k delete_ok \<sigma> =
    (if \<not> delete_ok then \<sigma>
     else
       \<lparr>db = delete_rows uid k (db \<sigma>),
        tasks = tasks \<sigma> @
          [WriteLog \<lparr>log_user_id = uid, log_type = ascii ''delete_field'',
                     log_details = DeleteDetails k\<rparr>]\<rparr>)"

text \<open>
  The next write of the task at position \<open>i\<close>: \<open>ok\<close> tells whether the write goes
  through, \<open>d\<close> is the time stamp taken when a field is updated.
\<close>

definition run_task :: "nat \<Rightarrow> bool \<Rightarrow> jsstring \<Rightarrow> system \<Rightarrow> system" where
  "run_task i ok d \<sigma> =
    (if i < length (tasks \<sigma>) then
       (case tasks \<sigma> ! i of
          InsertAnalysis uid fid r nm \<Rightarrow>
            \<lparr>db = insert_analysis ok uid fid (analysis_row_of r) (db \<sigma>),
             tasks = (tasks \<sigma>)[i := UpdateField uid fid r nm]\<rparr>
        | UpdateField uid fid r nm \<Rightarrow>
            \<lparr>db = update_last_analysis ok uid fid (Analysed r d) (db \<sigma>),
             tasks = (tasks \<sigma>)[i := WriteLog
                \<lparr>log_user_id = uid, log_type = ascii ''analysis'',
                 log_details = AnalysisDetails nm (ndvi_average r)\<rparr>]\<rparr>
        | WriteLog entry \<Rightarrow>
            \<lparr>db = insert_activity ok entry (db \<sigma>),
             tasks = take i (tasks \<sigma>) @ drop (Suc i) (tasks \<sigma>)\<rparr>)
     else \<sigma>)"

inductive reachable :: "system \<Rightarrow> bool" where
  init: "reachable init_system"
| create: "reachable \<sigma> \<Longrightarrow> reachable (start_create uid b x \<sigma>)"
| delete: "reachable \<sigma> \<Longrightarrow> reachable (start_delete uid k delete_ok \<sigma>)"
| analyse: "reachable \<sigma> \<Longrightarrow> reachable (start_analyze e uid body x \<sigma>)"
| run: "reachable \<sigma> \<Longrightarrow> reachable (run_task i ok d \<sigma>)"

definition latest_analysis :: "store \<Rightarrow> jsstring \<Rightarrow> analysis_row option" where
  "latest_analysis s k =
    (case filter (\<lambda>a. row_field_id a = k) (analyses s) of
       [] \<Rightarrow> None
     | a # as \<Rightarrow> Some (last (a # as)))"

fun snapshot_matches :: "snapshot \<Rightarrow> analysis_row \<Rightarrow> bool" where
  "snapshot_matches (Initial d) a \<longleftrightarrow>
     row_ndvi_average a = Fin 0 \<and> row_healthy_percent a = Fin 0
   \<and> row_moderate_percent a = Fin 0 \<and> row_stressed_percent a = Fin 0"
| "snapshot_matches (Analysed r d) a \<longleftrightarrow>
     row_ndvi_average a = ndvi_average r \<and> row_healthy_percent a = healthy_percent r
   \<and> row_moderate_percent a = moderate_percent r
   \<and> row_stressed_percent a = stressed_percent r
   \<and> weather_data a = result_weather r \<and> row_ai_insight a = ai_insight r"

text \<open>
  The spec's words: the snapshot of the field is the most recently completed analysis
  of that field.
\<close>

definition snapshot_is_latest :: "store \<Rightarrow> jsstring \<Rightarrow> bool" where
  "snapshot_is_latest s k \<longleftrightarrow>
    (case field_rows s k of
       None \<Rightarrow> True
     | Some f \<Rightarrow>
        (case latest_analysis s k of
           None \<Rightarrow> False
         | Some a \<Rightarrow> snapshot_matches (last_analysis f) a))"

text \<open>Every analysis references a field of the store.\<close>

definition analyses_owned :: "store \<Rightarrow> bool" where
  "analyses_owned s \<longleftrightarrow> list_all (\<lambda>a. row_field_id a \<in> dom (field_rows s)) (analyses s)"

text \<open>
  The spec's words: the data of a snapshot are complete. The literal of a new field is
  complete; a result is complete when its index, percentages, deviation and norm are
  numbers, no reading of its weather is missing, and its insight is an object.
\<close>

fun is_object :: "jsval \<Rightarrow> bool" where
  "is_object (JObject kvs) = True"
| "is_object _ = False"

definition result_complete :: "analysis_result \<Rightarrow> bool" where
  "result_complete r \<longleftrightarrow>
     ndvi_average r \<noteq> NaN \<and> healthy_percent r \<noteq> NaN \<and> moderate_percent r \<noteq> NaN
   \<and> stressed_percent r \<noteq> NaN \<and> ndvi_deviation r \<noteq> NaN \<and> seasonal_norm r \<noteq> NaN
   \<and> weather_complete (result_weather r) \<and> is_object (ai_insight r)"

fun snapshot_complete :: "snapshot \<Rightarrow> bool" where
  "snapshot_complete (Initial d) = True"
| "snapshot_complete (Analysed r d) = result_complete r"

section \<open>Sample inputs\<close>

text \<open>
  Concrete environments, replies and requests at which the properties below are
  exercised: no provider configured, one language-model provider configured, a reply
  wrapped in code fences (three backticks, \<open>json\<close>, \<open>{}\<close>, three backticks), a parser
  that accepts the text \<open>{}\<close> only, and a handler run in which every external call is
  rejected, every write goes through and no result of the arithmetic needs rounding.
\<close>

definition env_unconfigured :: env where
  "env_unconfigured = \<lparr>COPERNICUS_USER = None, COPERNICUS_PASS = None,
     GROQ_API_KEY = None, GEMINI_API_KEY = None\<rparr>"

definition env_groq :: env where
  "env_groq = env_unconfigured\<lparr>GROQ_API_KEY := Some (ascii ''gsk'')\<rparr>"

definition env_gemini :: env where
  "env_gemini = env_unconfigured\<lparr>GEMINI_API_KEY := Some (ascii ''gem'')\<rparr>"

definition fenced_reply :: jsstring where
  "fenced_reply = [0x60, 0x60, 0x60, 0x6A, 0x73, 0x6F, 0x6E, 0x7B, 0x7D, 0x60, 0x60, 0x60]"

definition groq_reply :: "jsstring \<Rightarrow> groq_completion outcome" where
  "groq_reply t = Resolved \<lparr>choices = Some [\<lparr>message = Some \<lparr>content = Some t\<rparr>\<rparr>]\<rparr>"

definition parse_braces :: "jsstring \<Rightarrow> jsval option" where
  "parse_braces t = (if t = [0x7B, 0x7D] then Some (JObject []) else None)"

definition ext_offline :: analyze_ext where
  "ext_offline =
    \<lparr>rounding = (\<lambda>v. v), tokenRes = Rejected, searchRes = Rejected,
     random = \<lparr>r_ndvi = 0.5, r_healthy = 0.5, r_moderate = 0.5, r_stressed = 0.5,
               r_alert = 0.5\<rparr>,
     currentMonth = LocalDate 2026 6 1,
     weatherRes = Rejected, groqRes = Rejected, geminiRes = Rejected,
     JSON_parse = parse_braces,
     snapshot_date = ascii ''2026-07-01T00:00:00.000Z'',
     analysis_insert_ok = True, field_update_ok = True, analysis_log_ok = True\<rparr>"

definition user1 :: jsstring where
  "user1 = ascii ''user-1''"

text \<open>
  A field created by the sample user and a request to analyse it; a second run with
  other draws; a weather reply that lacks the temperature; and four systems: the field
  created and logged, two runs whose writes interleave (insert of the first, insert and
  update of the second, update of the first, every write going through), a run whose
  insert goes through while its update fails, and a run whose language-model call is
  rejected while the weather reply lacks the temperature.
\<close>

definition body_north :: create_body where
  "body_north =
    \<lparr>c_name = ascii ''North'', c_lat = Fin 55, c_lon = Fin 37, c_coordinates = None,
     c_area_hectares = None, c_crop_type = None, c_polygon = None\<rparr>"

definition create_f1 :: create_ext where
  "create_f1 =
    \<lparr>new_id = ascii ''f1'', created_date = ascii ''2026-06-01T00:00:00.000Z'',
     field_insert_ok = True, create_log_ok = True\<rparr>"

definition analyze_f1 :: analyze_body where
  "analyze_f1 =
    \<lparr>field_id = JString (ascii ''f1''), req_lat = JNumber (Fin 55),
     req_lon = JNumber (Fin 37), date_from = JUndefined, date_to = JUndefined\<rparr>"

definition date1 :: jsstring where
  "date1 = ascii ''2026-07-01T00:00:00.000Z''"

definition ext_second :: analyze_ext where
  "ext_second = ext_offline\<lparr>random :=
     \<lparr>r_ndvi = 0.25, r_healthy = 0.25, r_moderate = 0.25, r_stressed = 0.25,
      r_alert = 0.25\<rparr>\<rparr>"

definition reply_gap :: meteo_data where
  "reply_gap =
    \<lparr>current = Some \<lparr>temperature_2m = NaN, relative_humidity_2m = Fin 40,
                      wind_speed_10m = Fin 18, weather_code = Fin 2\<rparr>,
     daily = Some \<lparr>precipitation_sum = Some [Some (Fin 1.5), None, Some (Fin 2)]\<rparr>\<rparr>"

definition ext_gap :: analyze_ext where
  "ext_gap = ext_offline\<lparr>weatherRes := Resolved reply_gap\<rparr>"

definition sys_f1 :: system where
  "sys_f1 = run_task 0 True date1 (start_create user1 body_north create_f1 init_system)"

definition sys_interleaved :: system where
  "sys_interleaved =
     run_task 0 True date1 (run_task 1 True date1 (run_task 1 True date1
       (run_task 0 True date1
          (start_analyze env_unconfigured user1 analyze_f1 ext_second
             (start_analyze env_unconfigured user1 analyze_f1 ext_offline sys_f1)))))"

definition sys_stale :: system where
  "sys_stale =
     run_task 0 False date1 (run_task 0 True date1
       (start_analyze env_unconfigured user1 analyze_f1 ext_offline sys_f1))"

definition sys_gap :: system where
  "sys_gap =
     run_task 0 True date1 (run_task 0 True date1
       (start_analyze env_groq user1 analyze_f1 ext_gap sys_f1))"

definition field_f1 :: field_row where
  "field_f1 = newField user1 body_north (created_date create_f1)"

definition result_first :: analysis_result where
  "result_first = analysisResult env_unconfigured user1 analyze_f1 ext_offline (db sys_f1)"

definition result_second :: analysis_result where
  "result_second = analysisResult env_unconfigured user1 analyze_f1 ext_second (db sys_f1)"

definition result_gap :: analysis_result where
  "result_gap = analysisResult env_groq user1 analyze_f1 ext_gap (db sys_f1)"

section \<open>Weather-code mapping: properties\<close>

text \<open>
  C2, as amended. The mapping is total into the six condition labels; code 0 gives Clear,
  code 2 Clouds, code 61 Rain and code 96 Thunderstorm; the last range has no upper
  bound, so every code from 95 on (code 999 among them) gives Thunderstorm; every code
  outside all the ranges tested gives Unknown.
\<close>

theorem wmoToCondition_table:
  "wmoToCondition code \<in> conditions
   \<and> wmoToCondition (Fin 0) = ascii ''Clear''
   \<and> wmoToCondition (Fin 2) = ascii ''Clouds''
   \<and> wmoToCondition (Fin 61) = ascii ''Rain''
   \<and> wmoToCondition (Fin 96) = ascii ''Thunderstorm''
   \<and> wmoToCondition (Fin 999) = ascii ''Thunderstorm''
   \<and> (js_ge code1 (Fin 95) \<longrightarrow> wmoToCondition code1 = ascii ''Thunderstorm'')
   \<and> (\<not> in_mapped_range code2 \<longrightarrow> wmoToCondition code2 = ascii ''Unknown'')"
proof -
  have "wmoToCondition code \<in> conditions"
    by (simp add: wmoToCondition_def conditions_def)
  moreover have "js_ge code1 (Fin 95) \<longrightarrow> wmoToCondition code1 = ascii ''Thunderstorm''"
    by (cases code1) (auto simp add: wmoToCondition_def)
  moreover have "\<not> in_mapped_range code2 \<longrightarrow> wmoToCondition code2 = ascii ''Unknown''"
    by (auto simp add: wmoToCondition_def in_mapped_range_def)
  ultimately show ?thesis
    by (simp add: wmoToCondition_def)
qed

theorem wmoToCondition_table_witness:
  "js_ge (Fin 999) (Fin 95) \<and> wmoToCondition (Fin 999) = ascii ''Thunderstorm''
   \<and> \<not> in_mapped_range (Fin 90) \<and> wmoToCondition (Fin 90) = ascii ''Unknown''"
  using wmoToCondition_table [where code = "Fin 0" and ?code1.0 = "Fin 999" and ?code2.0 = "Fin 90"]
  by (simp add: in_mapped_range_def)

text \<open>C2 as stated fails: code 999 is not mapped to Unknown.\<close>

theorem wmoToCondition_999_counterexample:
  "wmoToCondition (Fin 999) \<noteq> ascii ''Unknown''"
  by (simp add: wmoToCondition_def ascii_def)

section \<open>Seasonal norm: properties\<close>

text \<open>
  C3. The seasonal norm does not depend on the crop: any two crops give the same value
  for the same date. It is 0.2 in the months 10, 11, 0, 1 and 2 (so in month 11), 0.45 in
  the months 3 and 4 (so in month 3), 0.8 in the months 5, 6 and 7 (so in month 6), and
  0.5 in the other months (so in month 9) and for a date that has no month.
\<close>

theorem getSeasonalNorm_table:
  "getSeasonalNorm crop date = getSeasonalNorm crop' date
   \<and> getSeasonalNorm crop (LocalDate y 11 d) = Fin 0.2
   \<and> getSeasonalNorm crop (LocalDate y 3 d) = Fin 0.45
   \<and> getSeasonalNorm crop (LocalDate y 6 d) = Fin 0.8
   \<and> getSeasonalNorm crop (LocalDate y 9 d) = Fin 0.5
   \<and> getSeasonalNorm crop InvalidDate = Fin 0.5
   \<and> (m < 12 \<longrightarrow> getSeasonalNorm crop (LocalDate y m d) =
        (if m \<in> {10, 11, 0, 1, 2} then Fin 0.2
         else if m \<in> {3, 4} then Fin 0.45
         else if m \<in> {5, 6, 7} then Fin 0.8
         else Fin 0.5))"
  by (auto simp add: getSeasonalNorm_def Let_def)

theorem getSeasonalNorm_table_witness:
  "(8::nat) < 12 \<and> getSeasonalNorm wheat (LocalDate 2026 8 1) = Fin 0.5"
  using getSeasonalNorm_table [where crop = wheat and crop' = unknown_crop
      and date = InvalidDate and y = 2026 and d = 1 and m = 8]
  by simp

section \<open>The analysis handler: validation\<close>

text \<open>
  C1, at the input where the handler breaks it. A request on the equator (latitude 0,
  longitude 37.6) carries valid coordinates, and the handler answers with status 500,
  the message that latitude and longitude are required, and the success flag false; the
  store is left as it was.
\<close>

theorem analyze_rejects_equator:
  "analyze e uid \<lparr>field_id = fid, req_lat = JNumber (Fin 0), req_lon = JNumber (Fin 37.6),
                  date_from = df, date_to = dt\<rparr> x s
   = (Failure 500 required_message, s)"
  by (simp add: analyze_def)

theorem analyze_rejects_equator_witness:
  "analyze env_unconfigured user1
     \<lparr>field_id = JString (ascii ''f1''), req_lat = JNumber (Fin 0),
      req_lon = JNumber (Fin 37.6), date_from = JUndefined, date_to = JUndefined\<rparr>
     ext_offline empty_store
   = (Failure 500 required_message, empty_store)"
  using analyze_rejects_equator [where e = env_unconfigured and uid = user1
      and fid = "JString (ascii ''f1'')" and df = JUndefined and dt = JUndefined
      and x = ext_offline and s = empty_store]
  by simp

text \<open>
  C10. The handler answers with the validation failure (status 500, the message that
  latitude and longitude are required, success false) exactly when \<open>lat\<close> or \<open>lon\<close> is
  falsy. A latitude or a longitude that is the number 0 is rejected, and the store is
  left as it was; two non-empty strings pass validation whatever their text, and the
  request is answered with success.
\<close>

theorem analyze_validation:
  "(fst (analyze e uid body x s) = Failure 500 required_message
      \<longleftrightarrow> \<not> truthy (req_lat body) \<or> \<not> truthy (req_lon body))
   \<and> (req_lat body0 = JNumber (Fin 0) \<or> req_lon body0 = JNumber (Fin 0) \<longrightarrow>
        analyze e uid body0 x s = (Failure 500 required_message, s))
   \<and> (req_lat body1 = JString t1 \<and> req_lon body1 = JString t2 \<and> t1 \<noteq> [] \<and> t2 \<noteq> [] \<longrightarrow>
        (\<exists>r. fst (analyze e uid body1 x s) = Success r))"
  by (auto simp add: analyze_def Let_def)

theorem analyze_validation_witness:
  "analyze env_unconfigured user1
      \<lparr>field_id = JNull, req_lat = JNumber (Fin 0), req_lon = JNumber (Fin 10),
       date_from = JUndefined, date_to = JUndefined\<rparr> ext_offline empty_store
     = (Failure 500 required_message, empty_store)
   \<and> (\<exists>r. fst (analyze env_unconfigured user1
      \<lparr>field_id = JNull, req_lat = JString (ascii ''abc''), req_lon = JString (ascii ''x''),
       date_from = JUndefined, date_to = JUndefined\<rparr> ext_offline empty_store) = Success r)"
  using analyze_validation [where
      body = "\<lparr>field_id = JNull, req_lat = JNumber (Fin 0), req_lon = JNumber (Fin 10),
       date_from = JUndefined, date_to = JUndefined\<rparr>"
      and ?body0.0 = "\<lparr>field_id = JNull, req_lat = JNumber (Fin 0), req_lon = JNumber (Fin 10),
       date_from = JUndefined, date_to = JUndefined\<rparr>"
      and ?body1.0 = "\<lparr>field_id = JNull, req_lat = JString (ascii ''abc''),
       req_lon = JString (ascii ''x''), date_from = JUndefined, date_to = JUndefined\<rparr>"
      and ?t1.0 = "ascii ''abc''" and ?t2.0 = "ascii ''x''"
      and e = env_unconfigured and uid = user1 and x = ext_offline and s = empty_store]
  by (simp add: ascii_def)

section \<open>Stress cause: properties\<close>

lemma labels_distinct:
  "distinct [label_no_stress, label_drought, label_heat, label_disease, label_freeze, label_delay]"
  by (simp add: label_no_stress_def label_drought_def label_heat_def label_disease_def
      label_freeze_def label_delay_def)

text \<open>
  C4. The classifier gives the no-stress label unless the deviation is below -0.15.
  Below it, the rules are tried in a fixed order and the first that matches wins:
  drought (rain below 5 and temperature above 25), then heat stress (temperature above
  30), then disease risk (humidity above 85), then freeze risk (temperature below 0 and
  index above 0.3), then the growth-delay label. The six labels are distinct. With
  deviation -0.2, rain 2 and temperature 28 the drought label is returned, whatever the
  humidity and the index.
\<close>

theorem stressCause_priority:
  "distinct [label_no_stress, label_drought, label_heat, label_disease, label_freeze,
             label_delay]
   \<and> (\<not> js_lt dev0 (Fin (- 0.15)) \<longrightarrow> stressCause dev0 w0 n0 = label_no_stress)
   \<and> (js_lt dev1 (Fin (- 0.15)) \<and> js_lt (rain_14d w1) (Fin 5) \<and> js_gt (temp w1) (Fin 25)
        \<longrightarrow> stressCause dev1 w1 n1 = label_drought)
   \<and> (js_lt dev2 (Fin (- 0.15)) \<and> \<not> (js_lt (rain_14d w2) (Fin 5) \<and> js_gt (temp w2) (Fin 25))
        \<and> js_gt (temp w2) (Fin 30)
        \<longrightarrow> stressCause dev2 w2 n2 = label_heat)
   \<and> (js_lt dev3 (Fin (- 0.15)) \<and> \<not> (js_lt (rain_14d w3) (Fin 5) \<and> js_gt (temp w3) (Fin 25))
        \<and> \<not> js_gt (temp w3) (Fin 30) \<and> js_gt (humidity w3) (Fin 85)
        \<longrightarrow> stressCause dev3 w3 n3 = label_disease)
   \<and> (js_lt dev4 (Fin (- 0.15)) \<and> \<not> (js_lt (rain_14d w4) (Fin 5) \<and> js_gt (temp w4) (Fin 25))
        \<and> \<not> js_gt (temp w4) (Fin 30) \<and> \<not> js_gt (humidity w4) (Fin 85)
        \<and> js_lt (temp w4) (Fin 0) \<and> js_gt n4 (Fin 0.3)
        \<longrightarrow> stressCause dev4 w4 n4 = label_freeze)
   \<and> (js_lt dev5 (Fin (- 0.15)) \<and> \<not> (js_lt (rain_14d w5) (Fin 5) \<and> js_gt (temp w5) (Fin 25))
        \<and> \<not> js_gt (temp w5) (Fin 30) \<and> \<not> js_gt (humidity w5) (Fin 85)
        \<and> \<not> (js_lt (temp w5) (Fin 0) \<and> js_gt n5 (Fin 0.3))
        \<longrightarrow> stressCause dev5 w5 n5 = label_delay)
   \<and> stressCause (Fin (- 0.2)) \<lparr>temp = Fin 28, condition = c, humidity = h, wind = wi,
                                  rain_14d = Fin 2\<rparr> n = label_drought"
proof -
  have d: "distinct [label_no_stress, label_drought, label_heat, label_disease, label_freeze,
             label_delay]"
    by (rule labels_distinct)
  show ?thesis
    apply (intro conjI impI)
           apply (rule d)
          apply (auto simp add: stressCause_def)
    done
qed

theorem stressCause_priority_witness:
  "\<not> js_lt (Fin 0.1) (Fin (- 0.15))
   \<and> stressCause (Fin 0.1) \<lparr>temp = Fin 35, condition = [], humidity = Fin 90, wind = Fin 1,
                             rain_14d = Fin 0\<rparr> (Fin 0.6) = label_no_stress
   \<and> stressCause (Fin (- 0.2)) \<lparr>temp = Fin 35, condition = [], humidity = Fin 90, wind = Fin 1,
                             rain_14d = Fin 2\<rparr> (Fin 0.6) = label_drought
   \<and> stressCause (Fin (- 0.2)) \<lparr>temp = Fin 35, condition = [], humidity = Fin 90, wind = Fin 1,
                             rain_14d = Fin 20\<rparr> (Fin 0.6) = label_heat
   \<and> stressCause (Fin (- 0.2)) \<lparr>temp = Fin (- 3), condition = [], humidity = Fin 90, wind = Fin 1,
                             rain_14d = Fin 20\<rparr> (Fin 0.6) = label_disease
   \<and> stressCause (Fin (- 0.2)) \<lparr>temp = Fin (- 3), condition = [], humidity = Fin 50, wind = Fin 1,
                             rain_14d = Fin 20\<rparr> (Fin 0.6) = label_freeze
   \<and> stressCause (Fin (- 0.2)) \<lparr>temp = Fin 12, condition = [], humidity = Fin 50, wind = Fin 1,
                             rain_14d = Fin 20\<rparr> (Fin 0.6) = label_delay"
  using stressCause_priority [where
      ?dev0.0 = "Fin 0.1" and ?n0.0 = "Fin 0.6" and
      ?w0.0 = "\<lparr>temp = Fin 35, condition = [], humidity = Fin 90, wind = Fin 1, rain_14d = Fin 0\<rparr>" and
      ?dev1.0 = "Fin (- 0.2)" and ?n1.0 = "Fin 0.6" and
      ?w1.0 = "\<lparr>temp = Fin 35, condition = [], humidity = Fin 90, wind = Fin 1, rain_14d = Fin 2\<rparr>" and
      ?dev2.0 = "Fin (- 0.2)" and ?n2.0 = "Fin 0.6" and
      ?w2.0 = "\<lparr>temp = Fin 35, condition = [], humidity = Fin 90, wind = Fin 1, rain_14d = Fin 20\<rparr>" and
      ?dev3.0 = "Fin (- 0.2)" and ?n3.0 = "Fin 0.6" and
      ?w3.0 = "\<lparr>temp = Fin (- 3), condition = [], humidity = Fin 90, wind = Fin 1, rain_14d = Fin 20\<rparr>" and
      ?dev4.0 = "Fin (- 0.2)" and ?n4.0 = "Fin 0.6" and
      ?w4.0 = "\<lparr>temp = Fin (- 3), condition = [], humidity = Fin 50, wind = Fin 1, rain_14d = Fin 20\<rparr>" and
      ?dev5.0 = "Fin (- 0.2)" and ?n5.0 = "Fin 0.6" and
      ?w5.0 = "\<lparr>temp = Fin 12, condition = [], humidity = Fin 50, wind = Fin 1, rain_14d = Fin 20\<rparr>" and
      c = "[]" and h = "Fin 50" and wi = "Fin 1" and n = "Fin 0.6"]
  by simp

section \<open>Synthetic fallback: properties\<close>

text \<open>
  C5. When the imagery provider is not configured or its lookup gives nothing, then for
  every draw of the random numbers (each in the interval from 0 to 1, 1 excluded) the
  analysis base has a healthy percentage in [65, 85], a moderate percentage in [20, 30],
  a stressed percentage in [5, 10], an index average in [0.58, 0.78], and no map
  reference.
\<close>

theorem fallback_bands:
  "random_ok r \<and> (\<not> imagery_configured e \<or> copernicus_lookup t sr = None) \<longrightarrow>
     (let b = analysis_base_of e t sr r in
        js_ge (healthy_percent b) (Fin 65) \<and> js_le (healthy_percent b) (Fin 85)
      \<and> js_ge (moderate_percent b) (Fin 20) \<and> js_le (moderate_percent b) (Fin 30)
      \<and> js_ge (stressed_percent b) (Fin 5) \<and> js_le (stressed_percent b) (Fin 10)
      \<and> js_ge (ndvi_average b) (Fin 0.58) \<and> js_le (ndvi_average b) (Fin 0.78)
      \<and> map_url b = None)"
  by (auto simp add: analysis_base_of_def fallback_base_def random_ok_def Let_def)

theorem fallback_bands_witness:
  "random_ok \<lparr>r_ndvi = 0.5, r_healthy = 0.5, r_moderate = 0.5, r_stressed = 0.5, r_alert = 0.9\<rparr>
   \<and> \<not> imagery_configured \<lparr>COPERNICUS_USER = None, COPERNICUS_PASS = None,
         GROQ_API_KEY = None, GEMINI_API_KEY = None\<rparr>
   \<and> healthy_percent (analysis_base_of \<lparr>COPERNICUS_USER = None, COPERNICUS_PASS = None,
         GROQ_API_KEY = None, GEMINI_API_KEY = None\<rparr> Rejected Rejected
         \<lparr>r_ndvi = 0.5, r_healthy = 0.5, r_moderate = 0.5, r_stressed = 0.5, r_alert = 0.9\<rparr>)
       = Fin 75"
  using fallback_bands [where
      r = "\<lparr>r_ndvi = 0.5, r_healthy = 0.5, r_moderate = 0.5, r_stressed = 0.5, r_alert = 0.9\<rparr>"
      and e = "\<lparr>COPERNICUS_USER = None, COPERNICUS_PASS = None,
         GROQ_API_KEY = None, GEMINI_API_KEY = None\<rparr>" and t = Rejected and sr = Rejected]
  by (simp add: random_ok_def imagery_configured_def analysis_base_of_def fallback_base_def)

section \<open>Weather lookup: properties\<close>

lemma or_zero_Fin: "or_zero (Fin a) = Fin a"
  by simp

lemma rainSum_step:
  "js_add fl (or_zero (Fin a0)) (or_zero_elem p) = Fin (fl (a0 + present_or_zero p))"
proof (cases p)
  case None
  then show ?thesis by (simp only: or_zero_Fin or_zero_elem.simps js_add.simps
        present_or_zero.simps)
next
  case (Some v)
  then show ?thesis by (cases v) (simp_all only: or_zero_Fin or_zero_elem.simps
        or_zero.simps js_add.simps present_or_zero.simps if_cancel)
qed

lemma rainSum_acc:
  "foldl (\<lambda>a b. js_add fl (or_zero a) (or_zero_elem b)) (Fin a0) ps
     = Fin (foldl (\<lambda>a b. fl (a + present_or_zero b)) a0 ps)"
proof (induction ps arbitrary: a0)
  case Nil
  then show ?case by simp
next
  case (Cons p ps)
  show ?case
    by (simp only: foldl_Cons rainSum_step Cons.IH)
qed

lemma rainSum_total: "rainSum fl ps = Fin (spec_rain_total fl ps)"
  by (simp add: rainSum_def spec_rain_total_def rainSum_acc)

lemma exact_total_acc:
  "foldl (\<lambda>a b. a + present_or_zero b) a0 ps = a0 + sum_list (map present_or_zero ps)"
  by (induction ps arbitrary: a0) (simp_all add: add.assoc)

lemma toFixed1_close:
  assumes "\<bar>x\<bar> < 10 ^ 21"
  shows "\<exists>w. toFixed1 (Fin x) = Fin w \<and> \<bar>w - x\<bar> \<le> 1 / 20"
proof -
  define n :: real where "n = of_int \<lfloor>\<bar>x\<bar> * 10 + 1 / 2\<rfloor>"
  have lo: "n \<le> \<bar>x\<bar> * 10 + 1 / 2"
    unfolding n_def by (rule of_int_floor_le)
  have hi: "\<bar>x\<bar> * 10 + 1 / 2 < n + 1"
    unfolding n_def by linarith
  have eq: "toFixed1 (Fin x) = Fin ((if x < 0 then - 1 else 1) * n / 10)"
    using assms by (simp add: n_def)
  have "\<bar>(if x < 0 then - 1 else 1) * n / 10 - x\<bar> \<le> 1 / 20"
  proof (cases "x < 0")
    case True
    then have a: "\<bar>x\<bar> = - x" by simp
    from lo hi a have "- n / 10 - x \<le> 1 / 20" and "- (1 / 20) \<le> - n / 10 - x"
      by linarith+
    then have "\<bar>- n / 10 - x\<bar> \<le> 1 / 20" by (intro abs_leI) linarith+
    with True show ?thesis by simp
  next
    case False
    then have a: "\<bar>x\<bar> = x" by simp
    from lo hi a have "n / 10 - x \<le> 1 / 20" and "- (1 / 20) \<le> n / 10 - x"
      by linarith+
    then have "\<bar>n / 10 - x\<bar> \<le> 1 / 20" by (intro abs_leI) linarith+
    with False show ?thesis by simp
  qed
  with eq show ?thesis by blast
qed

text \<open>
  C7. The lookup is a total function: it always returns a snapshot. On a transport or
  parse failure the snapshot is the synthetic one of the calendar month: temperature -5
  and Snow in the months 10, 11, 0, 1, 2, temperature 25 and Clear in the months 5, 6,
  7, temperature 10 and Clouds in the others, with humidity 60, wind 5 and rain 0. On
  success the wind is the speed divided by 3.6 (kilometres per hour to metres per
  second), the quotient of doubles printed with one decimal and hence within 0.05 of
  it, and the rain is the rounded sum of the daily values, added from the first to the
  last as doubles, a missing value counting as zero; where no addition needs rounding
  this sum is the sum of the values.
\<close>

theorem weather_lookup_policy:
  "(reply_unusable res1 \<longrightarrow> weather_lookup fl1 cm1 res1 = synthetic_weather cm1)
   \<and> (m < 12 \<longrightarrow> synthetic_weather (LocalDate y m d) =
        \<lparr>temp = (if m \<in> {10, 11, 0, 1, 2} then Fin (- 5)
                 else if m \<in> {5, 6, 7} then Fin 25 else Fin 10),
         condition = (if m \<in> {10, 11, 0, 1, 2} then ascii ''Snow''
                      else if m \<in> {5, 6, 7} then ascii ''Clear'' else ascii ''Clouds''),
         humidity = Fin 60, wind = Fin 5, rain_14d = Fin 0\<rparr>)
   \<and> (res2 = Resolved \<lparr>current = Some c, daily = Some \<lparr>precipitation_sum = Some ps\<rparr>\<rparr> \<longrightarrow>
        wind (weather_lookup fl2 cm2 res2)
          = toFixed1 (js_div fl2 (wind_speed_10m c) (Fin (fl2 3.6)))
      \<and> rain_14d (weather_lookup fl2 cm2 res2) = Math_round (Fin (spec_rain_total fl2 ps)))
   \<and> spec_rain_total (\<lambda>v. v) ps3 = sum_list (map present_or_zero ps3)
   \<and> (fl4 3.6 \<noteq> 0 \<and> \<bar>fl4 (v / fl4 3.6)\<bar> < 10 ^ 21 \<longrightarrow>
        (\<exists>w. toFixed1 (js_div fl4 (Fin v) (Fin (fl4 3.6))) = Fin w
              \<and> \<bar>w - fl4 (v / fl4 3.6)\<bar> \<le> 1 / 20))"
proof (intro conjI impI)
  assume "reply_unusable res1"
  then show "weather_lookup fl1 cm1 res1 = synthetic_weather cm1"
    by (auto simp add: reply_unusable_def weather_lookup_def
        split: outcome.splits option.splits)
next
  assume "m < 12"
  then show "synthetic_weather (LocalDate y m d) =
        \<lparr>temp = (if m \<in> {10, 11, 0, 1, 2} then Fin (- 5)
                 else if m \<in> {5, 6, 7} then Fin 25 else Fin 10),
         condition = (if m \<in> {10, 11, 0, 1, 2} then ascii ''Snow''
                      else if m \<in> {5, 6, 7} then ascii ''Clear'' else ascii ''Clouds''),
         humidity = Fin 60, wind = Fin 5, rain_14d = Fin 0\<rparr>"
    by (auto simp add: synthetic_weather_def Let_def)
next
  assume r: "res2 = Resolved \<lparr>current = Some c, daily = Some \<lparr>precipitation_sum = Some ps\<rparr>\<rparr>"
  show "wind (weather_lookup fl2 cm2 res2)
          = toFixed1 (js_div fl2 (wind_speed_10m c) (Fin (fl2 3.6)))"
    by (simp add: r weather_lookup_def)
  show "rain_14d (weather_lookup fl2 cm2 res2) = Math_round (Fin (spec_rain_total fl2 ps))"
    by (simp add: r weather_lookup_def rainSum_total)
next
  show "spec_rain_total (\<lambda>v. v) ps3 = sum_list (map present_or_zero ps3)"
    by (simp add: spec_rain_total_def exact_total_acc)
next
  assume a: "fl4 3.6 \<noteq> 0 \<and> \<bar>fl4 (v / fl4 3.6)\<bar> < 10 ^ 21"
  then have "\<exists>w. toFixed1 (Fin (fl4 (v / fl4 3.6))) = Fin w
                 \<and> \<bar>w - fl4 (v / fl4 3.6)\<bar> \<le> 1 / 20"
    by (intro toFixed1_close) simp
  with a show "\<exists>w. toFixed1 (js_div fl4 (Fin v) (Fin (fl4 3.6))) = Fin w
                 \<and> \<bar>w - fl4 (v / fl4 3.6)\<bar> \<le> 1 / 20"
    by simp
qed

theorem weather_lookup_policy_witness:
  "reply_unusable Rejected
   \<and> weather_lookup (\<lambda>v. v) (LocalDate 2026 0 15) Rejected =
       \<lparr>temp = Fin (- 5), condition = ascii ''Snow'', humidity = Fin 60, wind = Fin 5,
        rain_14d = Fin 0\<rparr>
   \<and> wind (weather_lookup (\<lambda>v. v) (LocalDate 2026 6 1)
        (Resolved \<lparr>current = Some \<lparr>temperature_2m = Fin 21.4, relative_humidity_2m = Fin 40,
                      wind_speed_10m = Fin 18, weather_code = Fin 2\<rparr>,
                   daily = Some \<lparr>precipitation_sum = Some [Some (Fin 1.5), None, Some (Fin 2)]\<rparr>\<rparr>))
       = Fin 5
   \<and> rain_14d (weather_lookup (\<lambda>v. v) (LocalDate 2026 6 1)
        (Resolved \<lparr>current = Some \<lparr>temperature_2m = Fin 21.4, relative_humidity_2m = Fin 40,
                      wind_speed_10m = Fin 18, weather_code = Fin 2\<rparr>,
                   daily = Some \<lparr>precipitation_sum = Some [Some (Fin 1.5), None, Some (Fin 2)]\<rparr>\<rparr>))
       = Fin 4"
  using weather_lookup_policy [where ?res1.0 = Rejected and ?cm1.0 = "LocalDate 2026 0 15"
      and ?fl1.0 = "\<lambda>v. v" and ?fl2.0 = "\<lambda>v. v" and ?fl4.0 = "\<lambda>v. v"
      and m = 0 and y = 2026 and d = 15
      and ?res2.0 = "Resolved \<lparr>current = Some \<lparr>temperature_2m = Fin 21.4,
                      relative_humidity_2m = Fin 40,
                      wind_speed_10m = Fin 18, weather_code = Fin 2\<rparr>,
                   daily = Some \<lparr>precipitation_sum = Some [Some (Fin 1.5), None, Some (Fin 2)]\<rparr>\<rparr>"
      and c = "\<lparr>temperature_2m = Fin 21.4, relative_humidity_2m = Fin 40,
                      wind_speed_10m = Fin 18, weather_code = Fin 2\<rparr>"
      and ps = "[Some (Fin 1.5), None, Some (Fin 2)]"
      and ?ps3.0 = "[Some (Fin 1.5), None, Some (Fin 2)]"
      and ?cm2.0 = "LocalDate 2026 6 1" and v = 18]
  by (simp add: reply_unusable_def spec_rain_total_def)

section \<open>Geo-coordinate adapter: properties\<close>

lemma closed_ring_swap:
  "pts \<noteq> [] \<Longrightarrow> closed_ring (map (\<lambda>p. (snd p, fst p)) pts) = closed_ring pts"
  by (auto simp add: closed_ring_def)

lemma swap_swap: "map ((\<lambda>p. (snd p, fst p)) \<circ> (\<lambda>p. (snd p, fst p))) pts = pts"
  by (induction pts) simp_all

text \<open>
  C9, as amended. A latitude and a longitude converted to a point and back are the
  original pair. A list of vertices converted to a polygon and back is the original
  list when it has at least three vertices and its first and last vertex are strictly
  equal; with at least three vertices and an open ring it is the original list followed
  by its first vertex; with fewer than three vertices it is the empty list.
\<close>

theorem geo_roundtrip:
  "fromGeoJSONPoint (Some (toGeoJSONPoint la lo)) = \<lparr>lat = la, lon = lo\<rparr>
   \<and> (3 \<le> length pts1 \<and> closed_ring pts1 \<longrightarrow>
        fromGeoJSONPolygon (toGeoJSONPolygon pts1) = pts1)
   \<and> (3 \<le> length pts2 \<and> \<not> closed_ring pts2 \<longrightarrow>
        fromGeoJSONPolygon (toGeoJSONPolygon pts2) = pts2 @ [pts2 ! 0])
   \<and> (length pts3 < 3 \<longrightarrow> fromGeoJSONPolygon (toGeoJSONPolygon pts3) = [])"
proof (intro conjI impI)
  show "fromGeoJSONPoint (Some (toGeoJSONPoint la lo)) = \<lparr>lat = la, lon = lo\<rparr>"
    by (simp add: toGeoJSONPoint_def)
next
  assume a: "3 \<le> length pts1 \<and> closed_ring pts1"
  then have "pts1 \<noteq> []" by auto
  with a show "fromGeoJSONPolygon (toGeoJSONPolygon pts1) = pts1"
    by (simp add: toGeoJSONPolygon_def closed_ring_swap swap_swap Let_def)
next
  assume a: "3 \<le> length pts2 \<and> \<not> closed_ring pts2"
  then have ne: "pts2 \<noteq> []" by auto
  then have "0 < length pts2" by simp
  with a ne show "fromGeoJSONPolygon (toGeoJSONPolygon pts2) = pts2 @ [pts2 ! 0]"
    by (simp add: toGeoJSONPolygon_def closed_ring_swap swap_swap Let_def)
next
  assume "length pts3 < 3"
  then show "fromGeoJSONPolygon (toGeoJSONPolygon pts3) = []"
    by (simp add: toGeoJSONPolygon_def)
qed

theorem geo_roundtrip_witness:
  "fromGeoJSONPolygon (toGeoJSONPolygon
      [(Fin 0, Fin 0), (Fin 0, Fin 1), (Fin 1, Fin 1), (Fin 0, Fin 0)])
     = [(Fin 0, Fin 0), (Fin 0, Fin 1), (Fin 1, Fin 1), (Fin 0, Fin 0)]
   \<and> fromGeoJSONPolygon (toGeoJSONPolygon [(Fin 0, Fin 0), (Fin 0, Fin 1), (Fin 1, Fin 1)])
     = [(Fin 0, Fin 0), (Fin 0, Fin 1), (Fin 1, Fin 1), (Fin 0, Fin 0)]
   \<and> fromGeoJSONPolygon (toGeoJSONPolygon [(Fin 5, Fin 6)]) = []"
  using geo_roundtrip [where
      ?pts1.0 = "[(Fin 0, Fin 0), (Fin 0, Fin 1), (Fin 1, Fin 1), (Fin 0, Fin 0)]"
      and ?pts2.0 = "[(Fin 0, Fin 0), (Fin 0, Fin 1), (Fin 1, Fin 1)]"
      and ?pts3.0 = "[(Fin 5, Fin 6)]" and la = "Fin 1" and lo = "Fin 2"]
  by (simp add: closed_ring_def)

text \<open>C9 as stated fails: an open triangle comes back with its first vertex appended.\<close>

theorem polygon_roundtrip_counterexample:
  "fromGeoJSONPolygon (toGeoJSONPolygon [(Fin 0, Fin 0), (Fin 0, Fin 1), (Fin 1, Fin 1)])
     \<noteq> [(Fin 0, Fin 0), (Fin 0, Fin 1), (Fin 1, Fin 1)]"
  by (simp add: toGeoJSONPolygon_def closed_ring_def Let_def)


section \<open>AI insight: properties\<close>

lemma trim_sublist: "sublist (trim s) s"
proof -
  have "sublist (rev (dropWhile is_ws (rev (dropWhile is_ws s)))) (dropWhile is_ws s)"
    by (simp add: sublist_rev_left)
  moreover have "sublist (dropWhile is_ws s) s"
    by simp
  ultimately show ?thesis
    unfolding trim_def by (rule sublist_order.order.trans)
qed

lemma has_fence_trim: "has_fence (trim s) \<Longrightarrow> has_fence s"
  unfolding has_fence_def using trim_sublist by (rule sublist_order.order.trans [rotated])

lemma prefix_fence_json: "prefix fence_json s \<Longrightarrow> prefix fence s"
  by (auto simp add: fence_json_def fence_def prefix_def)

lemma prefix_fence_iff:
  "prefix fence s \<longleftrightarrow> (\<exists>r. s = 0x60 # 0x60 # 0x60 # r)"
  by (auto simp add: fence_def prefix_def)

lemma strip_fences_unmatched:
  "\<not> prefix fence (c # cs) \<Longrightarrow> strip_fences (c # cs) = c # strip_fences cs"
  using prefix_fence_json [of "c # cs"] by auto

lemma strip_fences_head:
  assumes "\<not> prefix fence s"
  shows "\<not> prefix fence (strip_fences s)"
proof (cases s)
  case Nil
  then show ?thesis by (simp add: fence_def)
next
  case s1: (Cons a t1)
  have "\<not> prefix fence (a # t1)" using assms s1 by simp
  then have "strip_fences (a # t1) = a # strip_fences t1"
    by (rule strip_fences_unmatched)
  then have e1: "strip_fences s = a # strip_fences t1" unfolding s1 .
  show ?thesis
  proof (cases "a = 0x60")
    case False
    with e1 show ?thesis by (simp only: prefix_fence_iff) auto
  next
    case a: True
    show ?thesis
    proof (cases t1)
      case Nil
      with e1 show ?thesis by (simp add: prefix_fence_iff)
    next
      case s2: (Cons b t2)
      show ?thesis
      proof (cases "b = 0x60")
        case False
        then have "\<not> prefix fence (b # t2)" by (simp add: prefix_fence_iff)
        then have "strip_fences (b # t2) = b # strip_fences t2"
          by (rule strip_fences_unmatched)
        with e1 s2 False show ?thesis by (simp only: prefix_fence_iff) auto
      next
        case b: True
        have "\<not> prefix fence (b # t2)"
          using assms s1 s2 a b by (auto simp add: prefix_fence_iff)
        then have "strip_fences (b # t2) = b # strip_fences t2"
          by (rule strip_fences_unmatched)
        then have e2: "strip_fences t1 = b # strip_fences t2" unfolding s2 .
        show ?thesis
        proof (cases t2)
          case Nil
          with e1 e2 show ?thesis by (simp add: prefix_fence_iff)
        next
          case s3: (Cons d t3)
          have d: "d \<noteq> 0x60"
            using assms s1 s2 s3 a b by (auto simp add: prefix_fence_iff)
          then have "\<not> prefix fence (d # t3)" by (simp add: prefix_fence_iff)
          then have "strip_fences (d # t3) = d # strip_fences t3"
            by (rule strip_fences_unmatched)
          with e1 e2 s3 d show ?thesis by (simp only: prefix_fence_iff) auto
        qed
      qed
    qed
  qed
qed

lemma strip_fences_clean: "\<not> has_fence (strip_fences s)"
proof (induction s rule: strip_fences.induct)
  case 1
  then show ?case by (simp add: has_fence_def fence_def)
next
  case (2 c cs)
  show ?case
  proof (cases "prefix fence_json (c # cs)")
    case True
    with 2 show ?thesis by simp
  next
    case nj: False
    show ?thesis
    proof (cases "prefix fence (c # cs)")
      case True
      with nj 2 show ?thesis by simp
    next
      case False
      then have "\<not> prefix fence (strip_fences (c # cs))"
        by (rule strip_fences_head)
      moreover have "strip_fences (c # cs) = c # strip_fences cs"
        using False by (rule strip_fences_unmatched)
      moreover have "\<not> has_fence (strip_fences cs)"
        using 2 nj False by simp
      ultimately show ?thesis
        by (simp add: has_fence_def sublist_Cons_right)
    qed
  qed
qed

lemma placeholder_not_null: "placeholder_insight \<noteq> JNull"
  by (simp add: placeholder_insight_def)

text \<open>
  C6, as amended. The placeholder insight is an object with the fixed status title,
  summary and weather-impact text and an empty recommendation list; it is not null. The
  insight is this placeholder whenever a provider call raises before the parse (the
  request is rejected, or the Groq completion has no list of choices), whenever no
  provider is configured (the parser rejecting the empty text), and whenever the text
  handed to the parser does not parse; in every case the stage returns a value, which
  is the placeholder or what the parser returned. On the Gemini path the text handed to
  the parser holds no code-fence marker; on the Groq path, which asks for a JSON
  object, the text of the reply is handed to the parser as it is.
\<close>

theorem aiInsight_fallback:
  "placeholder_insight \<noteq> JNull
   \<and> placeholder_insight = JObject
        [(ascii ''status_title'', JString status_title_text),
         (ascii ''summary'', JString summary_text),
         (ascii ''weather_impact'', JString weather_impact_text),
         (ascii ''recommendations'', JArray [])]
   \<and> (rawResponse e0 groq0 gem0 = None \<longrightarrow>
        aiInsight p0 e0 groq0 gem0 = placeholder_insight)
   \<and> (truthy_str (GROQ_API_KEY e1) \<longrightarrow>
        aiInsight p1 e1 Rejected gem1 = placeholder_insight)
   \<and> (truthy_str (GROQ_API_KEY e7) \<and> choices completion7 = None \<longrightarrow>
        aiInsight p7 e7 (Resolved completion7) gem7 = placeholder_insight)
   \<and> (\<not> truthy_str (GROQ_API_KEY e2) \<and> truthy_str (GEMINI_API_KEY e2) \<longrightarrow>
        aiInsight p2 e2 groq2 Rejected = placeholder_insight)
   \<and> (\<not> truthy_str (GROQ_API_KEY e3) \<and> \<not> truthy_str (GEMINI_API_KEY e3) \<and> p3 [] = None \<longrightarrow>
        aiInsight p3 e3 groq3 gem3 = placeholder_insight)
   \<and> (rawResponse e4 groq4 gem4 = Some raw4 \<and> p4 raw4 = None \<longrightarrow>
        aiInsight p4 e4 groq4 gem4 = placeholder_insight)
   \<and> (aiInsight p8 e8 groq8 gem8 = placeholder_insight
        \<or> (\<exists>raw. rawResponse e8 groq8 gem8 = Some raw
                  \<and> p8 raw = Some (aiInsight p8 e8 groq8 gem8)))
   \<and> (\<not> truthy_str (GROQ_API_KEY e5) \<and> truthy_str (GEMINI_API_KEY e5)
        \<and> rawResponse e5 groq5 gem5 = Some raw5 \<longrightarrow> \<not> has_fence raw5)
   \<and> (truthy_str (GROQ_API_KEY e6) \<and> groq_content completion6 = Some raw6 \<longrightarrow>
        rawResponse e6 (Resolved completion6) gem6 = Some raw6)"
proof (intro conjI impI)
  show "placeholder_insight \<noteq> JNull" by (rule placeholder_not_null)
  show "placeholder_insight = JObject
        [(ascii ''status_title'', JString status_title_text),
         (ascii ''summary'', JString summary_text),
         (ascii ''weather_impact'', JString weather_impact_text),
         (ascii ''recommendations'', JArray [])]"
    by (rule placeholder_insight_def)
next
  assume "rawResponse e0 groq0 gem0 = None"
  then show "aiInsight p0 e0 groq0 gem0 = placeholder_insight"
    by (simp add: aiInsight_def)
next
  assume "truthy_str (GROQ_API_KEY e1)"
  then show "aiInsight p1 e1 Rejected gem1 = placeholder_insight"
    by (simp add: aiInsight_def rawResponse_def)
next
  assume "truthy_str (GROQ_API_KEY e7) \<and> choices completion7 = None"
  then show "aiInsight p7 e7 (Resolved completion7) gem7 = placeholder_insight"
    by (simp add: aiInsight_def rawResponse_def groq_content_def)
next
  assume "\<not> truthy_str (GROQ_API_KEY e2) \<and> truthy_str (GEMINI_API_KEY e2)"
  then show "aiInsight p2 e2 groq2 Rejected = placeholder_insight"
    by (simp add: aiInsight_def rawResponse_def)
next
  assume "\<not> truthy_str (GROQ_API_KEY e3) \<and> \<not> truthy_str (GEMINI_API_KEY e3) \<and> p3 [] = None"
  then show "aiInsight p3 e3 groq3 gem3 = placeholder_insight"
    by (simp add: aiInsight_def rawResponse_def)
next
  assume "rawResponse e4 groq4 gem4 = Some raw4 \<and> p4 raw4 = None"
  then show "aiInsight p4 e4 groq4 gem4 = placeholder_insight"
    by (simp add: aiInsight_def)
next
  show "aiInsight p8 e8 groq8 gem8 = placeholder_insight
        \<or> (\<exists>raw. rawResponse e8 groq8 gem8 = Some raw
                  \<and> p8 raw = Some (aiInsight p8 e8 groq8 gem8))"
    by (simp add: aiInsight_def split: option.splits)
next
  assume a: "\<not> truthy_str (GROQ_API_KEY e5) \<and> truthy_str (GEMINI_API_KEY e5)
        \<and> rawResponse e5 groq5 gem5 = Some raw5"
  have empty: "\<not> has_fence []" by (simp add: has_fence_def fence_def)
  have clean: "\<not> has_fence (trim (strip_fences t))" for t
    using has_fence_trim strip_fences_clean by blast
  from a have "raw5 = [] \<or> (\<exists>t. raw5 = trim (strip_fences t))"
    by (auto simp add: rawResponse_def split: outcome.splits option.splits if_splits)
  with empty clean show "\<not> has_fence raw5" by auto
next
  assume "truthy_str (GROQ_API_KEY e6) \<and> groq_content completion6 = Some raw6"
  then show "rawResponse e6 (Resolved completion6) gem6 = Some raw6"
    by (simp add: rawResponse_def)
qed

theorem aiInsight_fallback_witness:
  "rawResponse env_groq (Resolved \<lparr>choices = None\<rparr>) Rejected = None
   \<and> aiInsight parse_braces env_groq (Resolved \<lparr>choices = None\<rparr>) Rejected
       = placeholder_insight
   \<and> aiInsight parse_braces env_groq Rejected Rejected = placeholder_insight
   \<and> aiInsight parse_braces env_gemini Rejected Rejected = placeholder_insight
   \<and> aiInsight parse_braces env_unconfigured Rejected Rejected = placeholder_insight
   \<and> aiInsight parse_braces env_groq (groq_reply fenced_reply) Rejected = placeholder_insight
   \<and> \<not> has_fence [0x7B, 0x7D]
   \<and> rawResponse env_gemini Rejected (Resolved \<lparr>response_text = Some fenced_reply\<rparr>)
       = Some [0x7B, 0x7D]
   \<and> rawResponse env_groq (groq_reply fenced_reply) Rejected = Some fenced_reply"
  using aiInsight_fallback [where
      ?e0.0 = env_groq and ?p0.0 = parse_braces and ?groq0.0 = "Resolved \<lparr>choices = None\<rparr>"
      and ?gem0.0 = Rejected
      and ?e1.0 = env_groq and ?p1.0 = parse_braces and ?gem1.0 = Rejected
      and ?e7.0 = env_groq and ?p7.0 = parse_braces and ?completion7.0 = "\<lparr>choices = None\<rparr>"
      and ?gem7.0 = Rejected
      and ?e2.0 = env_gemini and ?p2.0 = parse_braces and ?groq2.0 = Rejected
      and ?e3.0 = env_unconfigured and ?p3.0 = parse_braces and ?groq3.0 = Rejected
      and ?gem3.0 = Rejected
      and ?e4.0 = env_groq and ?p4.0 = parse_braces and ?groq4.0 = "groq_reply fenced_reply"
      and ?gem4.0 = Rejected and ?raw4.0 = fenced_reply
      and ?e8.0 = env_groq and ?p8.0 = parse_braces and ?groq8.0 = Rejected
      and ?gem8.0 = Rejected
      and ?e5.0 = env_gemini and ?groq5.0 = Rejected
      and ?gem5.0 = "Resolved \<lparr>response_text = Some fenced_reply\<rparr>"
      and ?raw5.0 = "[0x7B, 0x7D]"
      and ?e6.0 = env_groq and ?completion6.0 = "\<lparr>choices = Some [\<lparr>message = Some \<lparr>content = Some fenced_reply\<rparr>\<rparr>]\<rparr>"
      and ?raw6.0 = fenced_reply and ?gem6.0 = Rejected]
  by (simp add: env_groq_def env_gemini_def env_unconfigured_def parse_braces_def ascii_def
      groq_reply_def groq_content_def rawResponse_def fenced_reply_def fence_json_def fence_def
      trim_def is_ws_def prefix_def)

text \<open>
  C6 as stated fails: with Groq configured, a reply wrapped in code fences reaches the
  parser with its fences.
\<close>

theorem groq_fence_counterexample:
  "rawResponse env_groq (groq_reply fenced_reply) Rejected = Some fenced_reply
   \<and> has_fence fenced_reply"
  by (simp add: rawResponse_def env_groq_def env_unconfigured_def groq_reply_def
      groq_content_def ascii_def has_fence_def fenced_reply_def fence_def)

section \<open>The store: properties\<close>

lemma insert_activity_fields [simp]:
  "field_rows (insert_activity ok entry s) = field_rows s"
  "analyses (insert_activity ok entry s) = analyses s"
  by (simp_all add: insert_activity_def)

lemma select_field_Some:
  "select_field uid fid s = Some (k, f) \<Longrightarrow>
     fid = JString k \<and> field_rows s k = Some f \<and> user_id f = uid"
  by (auto simp add: select_field_def split: jsval.splits option.splits if_splits)

lemma select_field_rows:
  "field_rows s' = field_rows s \<Longrightarrow> select_field uid fid s' = select_field uid fid s"
  by (simp add: select_field_def split: jsval.splits)

lemma analysis_row_of_field [simp]: "row_field_id (analysis_row_of r k) = k"
  by (simp add: analysis_row_of_def)

lemma update_analyses [simp]:
  "analyses (update_last_analysis ok uid fid snap s) = analyses s"
  by (simp add: update_last_analysis_def split: option.splits)

lemma update_not_ok [simp]: "update_last_analysis False uid fid snap s = s"
  by (simp add: update_last_analysis_def split: option.splits)

lemma insert_analysis_rows [simp]:
  "field_rows (insert_analysis ok uid fid row s) = field_rows s"
  by (simp add: insert_analysis_def split: option.splits)

lemma insert_analysis_select [simp]:
  "select_field uid' fid' (insert_analysis ok uid fid row s) = select_field uid' fid' s"
  by (rule select_field_rows) simp

lemma insert_analysis_ok:
  "select_field uid fid s = Some (k, f) \<Longrightarrow>
     analyses (insert_analysis True uid fid row s) = analyses s @ [row k]"
  by (simp add: insert_analysis_def)

lemma update_ok:
  "select_field uid fid s = Some (k, f) \<Longrightarrow>
     field_rows (update_last_analysis True uid fid snap s)
       = (field_rows s)(k \<mapsto> f\<lparr>last_analysis := snap\<rparr>)"
  by (simp add: update_last_analysis_def)

lemma update_select:
  "select_field uid fid s = Some (k, f) \<Longrightarrow>
     select_field uid fid (update_last_analysis True uid fid snap s)
       = Some (k, f\<lparr>last_analysis := snap\<rparr>)"
  by (frule select_field_Some) (simp add: select_field_def update_last_analysis_def)

lemma analyses_owned_insert_activity:
  "analyses_owned (insert_activity ok entry s) = analyses_owned s"
  by (simp add: analyses_owned_def)

lemma analyses_owned_insert_analysis:
  "analyses_owned s \<Longrightarrow> analyses_owned (insert_analysis ok uid fid (analysis_row_of r) s)"
  by (auto simp add: analyses_owned_def insert_analysis_def list_all_iff
      split: option.splits dest!: select_field_Some)

lemma analyses_owned_update:
  "analyses_owned s \<Longrightarrow> analyses_owned (update_last_analysis ok uid fid snap s)"
  by (auto simp add: analyses_owned_def update_last_analysis_def list_all_iff
      split: option.splits dest!: select_field_Some)

lemma analyses_owned_delete:
  "analyses_owned s \<Longrightarrow> analyses_owned (delete_rows uid k s)"
  by (auto simp add: analyses_owned_def delete_rows_def list_all_iff split: option.splits)

lemma owned_start_create:
  "analyses_owned (db \<sigma>) \<Longrightarrow> analyses_owned (db (start_create uid b x \<sigma>))"
  by (auto simp add: start_create_def analyses_owned_def list_all_iff)

lemma owned_start_delete:
  "analyses_owned (db \<sigma>) \<Longrightarrow> analyses_owned (db (start_delete uid k delete_ok \<sigma>))"
  by (simp add: start_delete_def analyses_owned_delete)

lemma owned_start_analyze:
  "analyses_owned (db \<sigma>) \<Longrightarrow> analyses_owned (db (start_analyze e uid body x \<sigma>))"
  by (simp add: start_analyze_def)

lemma owned_run_task:
  assumes "analyses_owned (db \<sigma>)"
  shows "analyses_owned (db (run_task i ok d \<sigma>))"
proof (cases "i < length (tasks \<sigma>)")
  case False
  with assms show ?thesis by (simp add: run_task_def)
next
  case True
  show ?thesis
  proof (cases "tasks \<sigma> ! i")
    case (InsertAnalysis uid fid r nm)
    with True assms show ?thesis
      by (simp add: run_task_def analyses_owned_insert_analysis)
  next
    case (UpdateField uid fid r nm)
    with True assms show ?thesis
      by (simp add: run_task_def analyses_owned_update)
  next
    case (WriteLog entry)
    with True assms show ?thesis
      by (simp add: run_task_def analyses_owned_insert_activity)
  qed
qed

lemma reachable_owned: "reachable \<sigma> \<Longrightarrow> analyses_owned (db \<sigma>)"
proof (induction rule: reachable.induct)
  case init
  show ?case by (simp add: init_system_def empty_store_def analyses_owned_def)
next
  case (create \<sigma> uid b x)
  then show ?case by (intro owned_start_create)
next
  case (delete \<sigma> uid k delete_ok)
  then show ?case by (intro owned_start_delete)
next
  case (analyse \<sigma> e uid body x)
  then show ?case by (intro owned_start_analyze)
next
  case (run \<sigma> i ok d)
  then show ?case by (intro owned_run_task)
qed

lemma run_insert:
  "i < length (tasks \<sigma>) \<Longrightarrow> tasks \<sigma> ! i = InsertAnalysis uid fid r nm \<Longrightarrow>
     run_task i ok d \<sigma> =
       \<lparr>db = insert_analysis ok uid fid (analysis_row_of r) (db \<sigma>),
        tasks = (tasks \<sigma>)[i := UpdateField uid fid r nm]\<rparr>"
  by (simp add: run_task_def)

lemma run_update:
  "i < length (tasks \<sigma>) \<Longrightarrow> tasks \<sigma> ! i = UpdateField uid fid r nm \<Longrightarrow>
     db (run_task i ok d \<sigma>) = update_last_analysis ok uid fid (Analysed r d) (db \<sigma>)"
  by (simp add: run_task_def)

lemma run_insert_update:
  assumes "i < length (tasks \<sigma>)" and "tasks \<sigma> ! i = InsertAnalysis uid fid r nm"
  shows "db (run_task i ok2 d2 (run_task i ok1 d1 \<sigma>))
     = update_last_analysis ok2 uid fid (Analysed r d2)
         (insert_analysis ok1 uid fid (analysis_row_of r) (db \<sigma>))"
proof -
  let ?\<sigma>1 = "\<lparr>db = insert_analysis ok1 uid fid (analysis_row_of r) (db \<sigma>),
               tasks = (tasks \<sigma>)[i := UpdateField uid fid r nm]\<rparr>"
  have 1: "run_task i ok1 d1 \<sigma> = ?\<sigma>1"
    using assms by (rule run_insert)
  have "i < length (tasks ?\<sigma>1)" and "tasks ?\<sigma>1 ! i = UpdateField uid fid r nm"
    using assms(1) by simp_all
  then have "db (run_task i ok2 d2 ?\<sigma>1)
      = update_last_analysis ok2 uid fid (Analysed r d2) (db ?\<sigma>1)"
    by (rule run_update)
  with 1 show ?thesis by simp
qed

lemma last_of_snoc:
  "(case ys @ [a] of [] \<Rightarrow> None | b # bs \<Rightarrow> Some (last (b # bs))) = Some a"
  by (cases ys) simp_all

lemma latest_of_snoc:
  "analyses s = as @ [a] \<Longrightarrow> latest_analysis s (row_field_id a) = Some a"
  by (simp add: latest_analysis_def last_of_snoc)

lemma snapshot_is_latestI:
  "field_rows t k = Some g \<Longrightarrow> latest_analysis t k = Some a \<Longrightarrow>
     snapshot_matches (last_analysis g) a \<Longrightarrow> snapshot_is_latest t k"
  by (simp add: snapshot_is_latest_def)

lemma snapshot_not_latestI:
  "field_rows t k = Some g \<Longrightarrow> latest_analysis t k = Some a \<Longrightarrow>
     \<not> snapshot_matches (last_analysis g) a \<Longrightarrow> \<not> snapshot_is_latest t k"
  by (simp add: snapshot_is_latest_def)

lemma writes_latest:
  assumes "select_field uid fid s = Some (k, f)"
  shows "snapshot_is_latest
           (update_last_analysis True uid fid (Analysed r d)
              (insert_analysis True uid fid (analysis_row_of r) s)) k"
proof (rule snapshot_is_latestI)
  let ?s1 = "insert_analysis True uid fid (analysis_row_of r) s"
  let ?s2 = "update_last_analysis True uid fid (Analysed r d) ?s1"
  have sel1: "select_field uid fid ?s1 = Some (k, f)"
    using assms by simp
  show "field_rows ?s2 k = Some (f\<lparr>last_analysis := Analysed r d\<rparr>)"
    by (simp add: update_ok [OF sel1])
  have "analyses ?s2 = analyses s @ [analysis_row_of r k]"
    using assms by (simp add: insert_analysis_ok)
  then have "latest_analysis ?s2 (row_field_id (analysis_row_of r k))
      = Some (analysis_row_of r k)"
    by (rule latest_of_snoc)
  then show "latest_analysis ?s2 k = Some (analysis_row_of r k)"
    by simp
  show "snapshot_matches (last_analysis (f\<lparr>last_analysis := Analysed r d\<rparr>))
          (analysis_row_of r k)"
    by (simp add: analysis_row_of_def)
qed

text \<open>
  A run whose steps follow one another with nothing between them is the handler; the
  same holds of the two field routes.
\<close>

lemma analyze_alone:
  assumes "truthy (req_lat body) \<and> truthy (req_lon body)"
  shows "db (run_task (length (tasks \<sigma>)) (analysis_log_ok x) d3
           (run_task (length (tasks \<sigma>)) (field_update_ok x) (snapshot_date x)
              (run_task (length (tasks \<sigma>)) (analysis_insert_ok x) d1
                 (start_analyze e uid body x \<sigma>))))
       = snd (analyze e uid body x (db \<sigma>))"
  using assms
  by (simp add: start_analyze_def run_task_def analyze_def Let_def fieldName_of_def
      nth_append)

lemma create_alone:
  "db (run_task (length (tasks \<sigma>)) (create_log_ok x) d (start_create uid b x \<sigma>))
     = snd (create_field uid b x (db \<sigma>))"
  by (simp add: start_create_def run_task_def create_field_def Let_def nth_append)

lemma delete_alone:
  "db (run_task (length (tasks \<sigma>)) log_ok d (start_delete uid k delete_ok \<sigma>))
     = snd (delete_field uid k delete_ok log_ok (db \<sigma>))"
  by (simp add: start_delete_def run_task_def delete_field_def delete_rows_def Let_def
      nth_append)

lemma start_analyze_valid:
  "truthy (req_lat body) \<and> truthy (req_lon body) \<Longrightarrow>
     start_analyze e uid body x \<sigma> =
       \<sigma>\<lparr>tasks := tasks \<sigma> @
            [InsertAnalysis uid (field_id body) (analysisResult e uid body x (db \<sigma>))
               (fieldName_of uid (field_id body) (db \<sigma>))]\<rparr>"
  by (simp add: start_analyze_def)

lemma base_numbers:
  "ndvi_average (analysis_base_of e t sr r) \<noteq> NaN
   \<and> healthy_percent (analysis_base_of e t sr r) \<noteq> NaN
   \<and> moderate_percent (analysis_base_of e t sr r) \<noteq> NaN
   \<and> stressed_percent (analysis_base_of e t sr r) \<noteq> NaN"
  by (auto simp add: analysis_base_of_def copernicus_lookup_def fallback_base_def
      split: option.splits outcome.splits list.splits)

lemma norm_number: "getSeasonalNorm crop date \<noteq> NaN"
  by (simp add: getSeasonalNorm_def Let_def)

lemma js_sub_number: "a \<noteq> NaN \<Longrightarrow> b \<noteq> NaN \<Longrightarrow> js_sub fl a b \<noteq> NaN"
  by (cases a; cases b) simp_all

lemma result_entries:
  "ndvi_average (analysisResult e uid body x s)
     = ndvi_average (analysis_base_of e (tokenRes x) (searchRes x) (random x))"
  "healthy_percent (analysisResult e uid body x s)
     = healthy_percent (analysis_base_of e (tokenRes x) (searchRes x) (random x))"
  "moderate_percent (analysisResult e uid body x s)
     = moderate_percent (analysis_base_of e (tokenRes x) (searchRes x) (random x))"
  "stressed_percent (analysisResult e uid body x s)
     = stressed_percent (analysis_base_of e (tokenRes x) (searchRes x) (random x))"
  "result_weather (analysisResult e uid body x s)
     = weather_lookup (rounding x) (currentMonth x) (weatherRes x)"
  "ai_insight (analysisResult e uid body x s)
     = aiInsight (JSON_parse x) e (groqRes x) (geminiRes x)"
  by (simp_all add: analysisResult_def Let_def analysis_base.defs analysis_result.defs)

lemma result_numbers:
  "ndvi_deviation (analysisResult e uid body x s) \<noteq> NaN
   \<and> seasonal_norm (analysisResult e uid body x s) \<noteq> NaN"
  using base_numbers [of e "tokenRes x" "searchRes x" "random x"]
  by (simp add: analysisResult_def Let_def analysis_base.defs analysis_result.defs
      norm_number js_sub_number)

lemma result_complete_iff:
  "result_complete (analysisResult e uid body x s) \<longleftrightarrow>
     weather_complete (weather_lookup (rounding x) (currentMonth x) (weatherRes x))
   \<and> is_object (aiInsight (JSON_parse x) e (groqRes x) (geminiRes x))"
  using base_numbers [of e "tokenRes x" "searchRes x" "random x"]
    result_numbers [of e uid body x s]
  by (simp add: result_complete_def result_entries)

lemma synthetic_complete: "weather_complete (synthetic_weather cm)"
  by (simp add: weather_complete_def synthetic_weather_def conditions_def Let_def)

lemma unusable_synthetic:
  "reply_unusable res \<Longrightarrow> weather_lookup fl cm res = synthetic_weather cm"
  by (auto simp add: reply_unusable_def weather_lookup_def
      split: outcome.splits option.splits)

lemma placeholder_object: "is_object placeholder_insight"
  by (simp add: placeholder_insight_def)

text \<open>
  C8, as amended. In every reachable state of the system, whatever the interleaving of
  the writes, each analysis references a field of the store, which has one owner. A
  request rejected at validation starts nothing and writes nothing. A run whose steps
  follow one another is the handler. When the insert and the update of a run on a field
  of the caller both go through, one right after the other, the snapshot of the field
  is its most recent analysis. A stage that fails gives its substitute to the snapshot:
  the synthetic weather, none of whose readings is missing, and the placeholder insight;
  the snapshot written by a run is complete exactly when no reading of its weather is
  missing and its insight is an object. A field that has just been created belongs to
  its creator and carries the literal snapshot.
\<close>

theorem store_invariant:
  "(reachable \<sigma> \<longrightarrow> analyses_owned (db \<sigma>))
   \<and> (\<not> truthy (req_lat body0) \<or> \<not> truthy (req_lon body0) \<longrightarrow>
        start_analyze e0 uid0 body0 x0 \<sigma>0 = \<sigma>0 \<and> snd (analyze e0 uid0 body0 x0 s0) = s0)
   \<and> (truthy (req_lat body9) \<and> truthy (req_lon body9) \<longrightarrow>
        db (run_task (length (tasks \<sigma>9)) (analysis_log_ok x9) d9
             (run_task (length (tasks \<sigma>9)) (field_update_ok x9) (snapshot_date x9)
                (run_task (length (tasks \<sigma>9)) (analysis_insert_ok x9) d9
                   (start_analyze e9 uid9 body9 x9 \<sigma>9))))
          = snd (analyze e9 uid9 body9 x9 (db \<sigma>9)))
   \<and> (i < length (tasks \<sigma>1) \<and> tasks \<sigma>1 ! i = InsertAnalysis uid1 fid1 r1 nm1
        \<and> select_field uid1 fid1 (db \<sigma>1) = Some (k1, f1) \<longrightarrow>
        snapshot_is_latest (db (run_task i True d2 (run_task i True d1 \<sigma>1))) k1)
   \<and> (reply_unusable (weatherRes x4) \<longrightarrow>
        result_weather (analysisResult e4 uid4 body4 x4 s4) = synthetic_weather (currentMonth x4)
        \<and> weather_complete (result_weather (analysisResult e4 uid4 body4 x4 s4)))
   \<and> (rawResponse e5 (groqRes x5) (geminiRes x5) = None \<longrightarrow>
        ai_insight (analysisResult e5 uid5 body5 x5 s5) = placeholder_insight)
   \<and> (rawResponse e6 (groqRes x6) (geminiRes x6) = Some raw6 \<and> JSON_parse x6 raw6 = None \<longrightarrow>
        ai_insight (analysisResult e6 uid6 body6 x6 s6) = placeholder_insight)
   \<and> is_object placeholder_insight
   \<and> (snapshot_complete (Analysed (analysisResult e7 uid7 body7 x7 s7) d7) \<longleftrightarrow>
        weather_complete (result_weather (analysisResult e7 uid7 body7 x7 s7))
        \<and> is_object (ai_insight (analysisResult e7 uid7 body7 x7 s7)))
   \<and> (field_insert_ok x8 \<and> new_id x8 \<notin> dom (field_rows (db \<sigma>8)) \<longrightarrow>
        field_rows (db (start_create uid8 b8 x8 \<sigma>8)) (new_id x8)
          = Some (newField uid8 b8 (created_date x8))
        \<and> user_id (newField uid8 b8 (created_date x8)) = uid8
        \<and> last_analysis (newField uid8 b8 (created_date x8)) = Initial (created_date x8))"
proof (intro conjI impI)
  assume "reachable \<sigma>"
  then show "analyses_owned (db \<sigma>)" by (rule reachable_owned)
next
  assume a: "\<not> truthy (req_lat body0) \<or> \<not> truthy (req_lon body0)"
  then show "start_analyze e0 uid0 body0 x0 \<sigma>0 = \<sigma>0"
    by (auto simp add: start_analyze_def)
  from a show "snd (analyze e0 uid0 body0 x0 s0) = s0"
    by (auto simp add: analyze_def)
next
  assume "truthy (req_lat body9) \<and> truthy (req_lon body9)"
  then show "db (run_task (length (tasks \<sigma>9)) (analysis_log_ok x9) d9
             (run_task (length (tasks \<sigma>9)) (field_update_ok x9) (snapshot_date x9)
                (run_task (length (tasks \<sigma>9)) (analysis_insert_ok x9) d9
                   (start_analyze e9 uid9 body9 x9 \<sigma>9))))
          = snd (analyze e9 uid9 body9 x9 (db \<sigma>9))"
    by (rule analyze_alone)
next
  assume a: "i < length (tasks \<sigma>1) \<and> tasks \<sigma>1 ! i = InsertAnalysis uid1 fid1 r1 nm1
        \<and> select_field uid1 fid1 (db \<sigma>1) = Some (k1, f1)"
  then have "db (run_task i True d2 (run_task i True d1 \<sigma>1))
     = update_last_analysis True uid1 fid1 (Analysed r1 d2)
         (insert_analysis True uid1 fid1 (analysis_row_of r1) (db \<sigma>1))"
    by (intro run_insert_update) simp_all
  moreover from a have "snapshot_is_latest
           (update_last_analysis True uid1 fid1 (Analysed r1 d2)
              (insert_analysis True uid1 fid1 (analysis_row_of r1) (db \<sigma>1))) k1"
    by (intro writes_latest) simp
  ultimately show "snapshot_is_latest (db (run_task i True d2 (run_task i True d1 \<sigma>1))) k1"
    by simp
next
  assume a: "reply_unusable (weatherRes x4)"
  then show w: "result_weather (analysisResult e4 uid4 body4 x4 s4)
      = synthetic_weather (currentMonth x4)"
    by (simp add: result_entries unusable_synthetic)
  show "weather_complete (result_weather (analysisResult e4 uid4 body4 x4 s4))"
    by (simp only: w synthetic_complete)
next
  assume "rawResponse e5 (groqRes x5) (geminiRes x5) = None"
  then show "ai_insight (analysisResult e5 uid5 body5 x5 s5) = placeholder_insight"
    by (simp add: result_entries aiInsight_def)
next
  assume "rawResponse e6 (groqRes x6) (geminiRes x6) = Some raw6 \<and> JSON_parse x6 raw6 = None"
  then show "ai_insight (analysisResult e6 uid6 body6 x6 s6) = placeholder_insight"
    by (simp add: result_entries aiInsight_def)
next
  show "is_object placeholder_insight" by (rule placeholder_object)
next
  show "snapshot_complete (Analysed (analysisResult e7 uid7 body7 x7 s7) d7) \<longleftrightarrow>
        weather_complete (result_weather (analysisResult e7 uid7 body7 x7 s7))
        \<and> is_object (ai_insight (analysisResult e7 uid7 body7 x7 s7))"
    by (simp add: result_complete_iff result_entries)
next
  assume a: "field_insert_ok x8 \<and> new_id x8 \<notin> dom (field_rows (db \<sigma>8))"
  then show "field_rows (db (start_create uid8 b8 x8 \<sigma>8)) (new_id x8)
          = Some (newField uid8 b8 (created_date x8))"
    by (simp add: start_create_def)
  show "user_id (newField uid8 b8 (created_date x8)) = uid8"
    by (simp add: newField_def Let_def)
  show "last_analysis (newField uid8 b8 (created_date x8)) = Initial (created_date x8)"
    by (simp add: newField_def Let_def)
qed

lemma f1_system:
  "tasks sys_f1 = [] \<and> analyses (db sys_f1) = []
   \<and> field_rows (db sys_f1) (ascii ''f1'') = Some field_f1"
  by (simp add: sys_f1_def start_create_def run_task_def init_system_def empty_store_def
      create_f1_def field_f1_def)

lemma select_f1:
  "select_field user1 (field_id analyze_f1) (db sys_f1) = Some (ascii ''f1'', field_f1)"
proof -
  have "user_id field_f1 = user1"
    by (simp add: field_f1_def newField_def Let_def)
  then show ?thesis
    using f1_system by (simp add: select_field_def analyze_f1_def)
qed

lemma truthy_f1: "truthy (req_lat analyze_f1) \<and> truthy (req_lon analyze_f1)"
  by (simp add: analyze_f1_def)

lemma reachable_f1: "reachable sys_f1"
  unfolding sys_f1_def by (intro reachable.run reachable.create reachable.init)

lemma one_run_tasks:
  "tasks (start_analyze e user1 analyze_f1 x sys_f1)
     = [InsertAnalysis user1 (field_id analyze_f1)
          (analysisResult e user1 analyze_f1 x (db sys_f1))
          (fieldName_of user1 (field_id analyze_f1) (db sys_f1))]
   \<and> db (start_analyze e user1 analyze_f1 x sys_f1) = db sys_f1"
  using f1_system by (simp add: start_analyze_valid [OF truthy_f1])

lemma two_runs_tasks:
  "tasks (start_analyze e' user1 analyze_f1 x' (start_analyze e user1 analyze_f1 x sys_f1))
     = [InsertAnalysis user1 (field_id analyze_f1)
          (analysisResult e user1 analyze_f1 x (db sys_f1))
          (fieldName_of user1 (field_id analyze_f1) (db sys_f1)),
        InsertAnalysis user1 (field_id analyze_f1)
          (analysisResult e' user1 analyze_f1 x' (db sys_f1))
          (fieldName_of user1 (field_id analyze_f1) (db sys_f1))]
   \<and> db (start_analyze e' user1 analyze_f1 x' (start_analyze e user1 analyze_f1 x sys_f1))
       = db sys_f1"
  using one_run_tasks [of e x] by (simp add: start_analyze_valid [OF truthy_f1])

lemma interleaved_db:
  assumes "tasks \<sigma> = [InsertAnalysis u fid rA nA, InsertAnalysis u fid rB nB]"
  shows "db (run_task 0 True d (run_task (Suc 0) True d (run_task (Suc 0) True d
               (run_task 0 True d \<sigma>))))
     = update_last_analysis True u fid (Analysed rA d)
         (update_last_analysis True u fid (Analysed rB d)
            (insert_analysis True u fid (analysis_row_of rB)
               (insert_analysis True u fid (analysis_row_of rA) (db \<sigma>))))"
  using assms by (simp add: run_task_def)

lemma interleaved_store:
  assumes "select_field u fid s = Some (k, f)"
  shows "analyses (update_last_analysis True u fid (Analysed rA d)
         (update_last_analysis True u fid (Analysed rB d)
            (insert_analysis True u fid (analysis_row_of rB)
               (insert_analysis True u fid (analysis_row_of rA) s))))
       = (analyses s @ [analysis_row_of rA k]) @ [analysis_row_of rB k]"
    and "field_rows (update_last_analysis True u fid (Analysed rA d)
         (update_last_analysis True u fid (Analysed rB d)
            (insert_analysis True u fid (analysis_row_of rB)
               (insert_analysis True u fid (analysis_row_of rA) s)))) k
       = Some (f\<lparr>last_analysis := Analysed rA d\<rparr>)"
proof -
  let ?s1 = "insert_analysis True u fid (analysis_row_of rA) s"
  let ?s2 = "insert_analysis True u fid (analysis_row_of rB) ?s1"
  let ?s3 = "update_last_analysis True u fid (Analysed rB d) ?s2"
  have sel1: "select_field u fid ?s1 = Some (k, f)" using assms(1) by simp
  have sel2: "select_field u fid ?s2 = Some (k, f)" using assms(1) by simp
  have sel3: "select_field u fid ?s3 = Some (k, f\<lparr>last_analysis := Analysed rB d\<rparr>)"
    using sel2 by (rule update_select)
  show "analyses (update_last_analysis True u fid (Analysed rA d) ?s3)
       = (analyses s @ [analysis_row_of rA k]) @ [analysis_row_of rB k]"
    by (simp only: update_analyses insert_analysis_ok [OF sel1]
        insert_analysis_ok [OF assms(1)])
  show "field_rows (update_last_analysis True u fid (Analysed rA d) ?s3) k
       = Some (f\<lparr>last_analysis := Analysed rA d\<rparr>)"
    by (simp add: update_ok [OF sel3])
qed

lemma first_ndvi: "ndvi_average result_first = Fin 0.68"
  by (simp add: result_first_def result_entries analysis_base_of_def imagery_configured_def
      env_unconfigured_def fallback_base_def ext_offline_def)

lemma second_ndvi: "ndvi_average result_second = Fin 0.63"
  by (simp add: result_second_def result_entries analysis_base_of_def imagery_configured_def
      env_unconfigured_def fallback_base_def ext_offline_def ext_second_def)

lemma interleaved_not_latest:
  "latest_analysis (db sys_interleaved) (ascii ''f1'')
     = Some (analysis_row_of result_second (ascii ''f1''))
   \<and> \<not> snapshot_is_latest (db sys_interleaved) (ascii ''f1'')"
proof -
  let ?s4 = "update_last_analysis True user1 (field_id analyze_f1) (Analysed result_first date1)
         (update_last_analysis True user1 (field_id analyze_f1) (Analysed result_second date1)
            (insert_analysis True user1 (field_id analyze_f1) (analysis_row_of result_second)
               (insert_analysis True user1 (field_id analyze_f1)
                  (analysis_row_of result_first) (db sys_f1))))"
  have d: "db sys_interleaved = ?s4"
    unfolding sys_interleaved_def result_first_def result_second_def
    using two_runs_tasks [of env_unconfigured ext_second env_unconfigured ext_offline]
    by (simp add: interleaved_db)
  have a: "analyses ?s4 = (analyses (db sys_f1) @ [analysis_row_of result_first (ascii ''f1'')])
             @ [analysis_row_of result_second (ascii ''f1'')]"
    by (rule interleaved_store(1) [OF select_f1])
  have r: "field_rows ?s4 (ascii ''f1'')
      = Some (field_f1\<lparr>last_analysis := Analysed result_first date1\<rparr>)"
    by (rule interleaved_store(2) [OF select_f1])
  have l: "latest_analysis ?s4 (row_field_id (analysis_row_of result_second (ascii ''f1'')))
      = Some (analysis_row_of result_second (ascii ''f1''))"
    using a by (rule latest_of_snoc)
  then have l': "latest_analysis ?s4 (ascii ''f1'')
      = Some (analysis_row_of result_second (ascii ''f1''))"
    by simp
  have "\<not> snapshot_matches
           (last_analysis (field_f1\<lparr>last_analysis := Analysed result_first date1\<rparr>))
           (analysis_row_of result_second (ascii ''f1''))"
    by (simp add: analysis_row_of_def first_ndvi second_ndvi)
  with r l' have "\<not> snapshot_is_latest ?s4 (ascii ''f1'')"
    by (rule snapshot_not_latestI)
  with l' d show ?thesis by simp
qed

lemma reachable_interleaved: "reachable sys_interleaved"
  unfolding sys_interleaved_def
  by (intro reachable.run reachable.analyse reachable_f1)

lemma stale_not_latest:
  "latest_analysis (db sys_stale) (ascii ''f1'')
     = Some (analysis_row_of result_first (ascii ''f1''))
   \<and> \<not> snapshot_is_latest (db sys_stale) (ascii ''f1'')"
proof -
  let ?s2 = "insert_analysis True user1 (field_id analyze_f1) (analysis_row_of result_first)
               (db sys_f1)"
  let ?\<sigma>1 = "start_analyze env_unconfigured user1 analyze_f1 ext_offline sys_f1"
  have "db (run_task 0 False date1 (run_task 0 True date1 ?\<sigma>1))
      = update_last_analysis False user1 (field_id analyze_f1) (Analysed result_first date1)
          (insert_analysis True user1 (field_id analyze_f1) (analysis_row_of result_first)
             (db ?\<sigma>1))"
    unfolding result_first_def
    by (rule run_insert_update
        [where nm = "fieldName_of user1 (field_id analyze_f1) (db sys_f1)"])
      (simp_all add: one_run_tasks)
  then have "db sys_stale
      = update_last_analysis False user1 (field_id analyze_f1) (Analysed result_first date1) ?s2"
    by (simp add: sys_stale_def one_run_tasks)
  then have d: "db sys_stale = ?s2" by simp
  have a: "analyses ?s2 = analyses (db sys_f1) @ [analysis_row_of result_first (ascii ''f1'')]"
    by (rule insert_analysis_ok [OF select_f1])
  have r: "field_rows ?s2 (ascii ''f1'') = Some field_f1"
    using f1_system by simp
  have "latest_analysis ?s2 (row_field_id (analysis_row_of result_first (ascii ''f1'')))
      = Some (analysis_row_of result_first (ascii ''f1''))"
    using a by (rule latest_of_snoc)
  then have l: "latest_analysis ?s2 (ascii ''f1'')
      = Some (analysis_row_of result_first (ascii ''f1''))"
    by simp
  have "\<not> snapshot_matches (last_analysis field_f1)
           (analysis_row_of result_first (ascii ''f1''))"
    by (simp add: field_f1_def newField_def Let_def analysis_row_of_def first_ndvi)
  with r l have "\<not> snapshot_is_latest ?s2 (ascii ''f1'')"
    by (rule snapshot_not_latestI)
  with l d show ?thesis by simp
qed

lemma reachable_stale: "reachable sys_stale"
  unfolding sys_stale_def
  by (intro reachable.run reachable.analyse reachable_f1)

lemma gap_written:
  "field_rows (db sys_gap) (ascii ''f1'')
     = Some (field_f1\<lparr>last_analysis := Analysed result_gap date1\<rparr>)"
proof -
  let ?s1 = "insert_analysis True user1 (field_id analyze_f1) (analysis_row_of result_gap)
               (db sys_f1)"
  let ?\<sigma>1 = "start_analyze env_groq user1 analyze_f1 ext_gap sys_f1"
  have "db (run_task 0 True date1 (run_task 0 True date1 ?\<sigma>1))
      = update_last_analysis True user1 (field_id analyze_f1) (Analysed result_gap date1)
          (insert_analysis True user1 (field_id analyze_f1) (analysis_row_of result_gap)
             (db ?\<sigma>1))"
    unfolding result_gap_def
    by (rule run_insert_update
        [where nm = "fieldName_of user1 (field_id analyze_f1) (db sys_f1)"])
      (simp_all add: one_run_tasks)
  then have "db sys_gap
      = update_last_analysis True user1 (field_id analyze_f1) (Analysed result_gap date1) ?s1"
    by (simp add: sys_gap_def one_run_tasks)
  moreover have "select_field user1 (field_id analyze_f1) ?s1 = Some (ascii ''f1'', field_f1)"
    using select_f1 by simp
  ultimately show ?thesis
    by (simp add: update_ok)
qed

lemma gap_failed_call:
  "rawResponse env_groq (groqRes ext_gap) (geminiRes ext_gap) = None"
  by (simp add: rawResponse_def env_groq_def env_unconfigured_def ext_gap_def ext_offline_def
      ascii_def)

lemma gap_incomplete:
  "temp (result_weather result_gap) = NaN
   \<and> \<not> snapshot_complete (Analysed result_gap date1)"
proof -
  have "temp (result_weather result_gap) = NaN"
    by (simp add: result_gap_def result_entries ext_gap_def ext_offline_def reply_gap_def
        weather_lookup_def)
  then show ?thesis
    by (simp add: result_complete_def weather_complete_def)
qed

lemma reachable_gap: "reachable sys_gap"
  unfolding sys_gap_def
  by (intro reachable.run reachable.analyse reachable_f1)

theorem store_invariant_witness:
  "reachable sys_interleaved \<and> analyses_owned (db sys_interleaved)
   \<and> start_analyze env_unconfigured user1 (analyze_f1\<lparr>req_lat := JNumber (Fin 0)\<rparr>)
        ext_offline sys_f1 = sys_f1
   \<and> db (run_task 0 True date1 (run_task 0 True (snapshot_date ext_offline)
           (run_task 0 True date1
              (start_analyze env_unconfigured user1 analyze_f1 ext_offline sys_f1))))
       = snd (analyze env_unconfigured user1 analyze_f1 ext_offline (db sys_f1))
   \<and> snapshot_is_latest
        (db (run_task 0 True date1 (run_task 0 True date1
           (start_analyze env_unconfigured user1 analyze_f1 ext_offline sys_f1))))
        (ascii ''f1'')
   \<and> weather_complete (result_weather result_first)
   \<and> ai_insight (analysisResult env_groq user1 analyze_f1 ext_offline (db sys_f1))
       = placeholder_insight
   \<and> ai_insight result_first = placeholder_insight
   \<and> snapshot_complete (Analysed result_first date1)
   \<and> field_rows (db (start_create user1 body_north create_f1 init_system)) (ascii ''f1'')
       = Some field_f1"
proof -
  note th = store_invariant [where \<sigma> = sys_interleaved
      and ?body0.0 = "analyze_f1\<lparr>req_lat := JNumber (Fin 0)\<rparr>" and ?e0.0 = env_unconfigured
      and ?uid0.0 = user1 and ?x0.0 = ext_offline and ?\<sigma>0.0 = sys_f1 and ?s0.0 = "db sys_f1"
      and ?body9.0 = analyze_f1 and ?e9.0 = env_unconfigured and ?uid9.0 = user1
      and ?x9.0 = ext_offline and ?\<sigma>9.0 = sys_f1 and ?d9.0 = date1
      and i = 0
      and ?\<sigma>1.0 = "start_analyze env_unconfigured user1 analyze_f1 ext_offline sys_f1"
      and ?uid1.0 = user1 and ?fid1.0 = "field_id analyze_f1" and ?r1.0 = result_first
      and ?nm1.0 = "fieldName_of user1 (field_id analyze_f1) (db sys_f1)"
      and ?k1.0 = "ascii ''f1''" and ?f1.0 = field_f1 and ?d1.0 = date1 and ?d2.0 = date1
      and ?x4.0 = ext_offline and ?e4.0 = env_unconfigured and ?uid4.0 = user1
      and ?body4.0 = analyze_f1 and ?s4.0 = "db sys_f1"
      and ?e5.0 = env_groq and ?x5.0 = ext_offline and ?uid5.0 = user1
      and ?body5.0 = analyze_f1 and ?s5.0 = "db sys_f1"
      and ?e6.0 = env_unconfigured and ?x6.0 = ext_offline and ?uid6.0 = user1
      and ?body6.0 = analyze_f1 and ?s6.0 = "db sys_f1" and ?raw6.0 = "[]"
      and ?e7.0 = env_unconfigured and ?x7.0 = ext_offline and ?uid7.0 = user1
      and ?body7.0 = analyze_f1 and ?s7.0 = "db sys_f1" and ?d7.0 = date1
      and ?x8.0 = create_f1 and ?\<sigma>8.0 = init_system and ?uid8.0 = user1 and ?b8.0 = body_north]
  let ?\<sigma>1 = "start_analyze env_unconfigured user1 analyze_f1 ext_offline sys_f1"
  have c1: "analyses_owned (db sys_interleaved)"
    using th [THEN conjunct1] reachable_interleaved by blast
  have "\<not> truthy (req_lat (analyze_f1\<lparr>req_lat := JNumber (Fin 0)\<rparr>))"
    by simp
  then have c2: "start_analyze env_unconfigured user1 (analyze_f1\<lparr>req_lat := JNumber (Fin 0)\<rparr>)
        ext_offline sys_f1 = sys_f1"
    using th [THEN conjunct2, THEN conjunct1] by blast
  have c3: "db (run_task 0 True date1 (run_task 0 True (snapshot_date ext_offline)
           (run_task 0 True date1 ?\<sigma>1)))
       = snd (analyze env_unconfigured user1 analyze_f1 ext_offline (db sys_f1))"
    using th [THEN conjunct2, THEN conjunct2, THEN conjunct1] truthy_f1 f1_system
    by (simp add: ext_offline_def)
  have "0 < length (tasks ?\<sigma>1)
      \<and> tasks ?\<sigma>1 ! 0 = InsertAnalysis user1 (field_id analyze_f1) result_first
           (fieldName_of user1 (field_id analyze_f1) (db sys_f1))
      \<and> select_field user1 (field_id analyze_f1) (db ?\<sigma>1) = Some (ascii ''f1'', field_f1)"
    using one_run_tasks [of env_unconfigured ext_offline] select_f1
    by (simp add: result_first_def)
  then have c4: "snapshot_is_latest
        (db (run_task 0 True date1 (run_task 0 True date1 ?\<sigma>1))) (ascii ''f1'')"
    using th [THEN conjunct2, THEN conjunct2, THEN conjunct2, THEN conjunct1] by blast
  have "reply_unusable (weatherRes ext_offline)"
    by (simp add: ext_offline_def reply_unusable_def)
  then have c5: "weather_complete (result_weather result_first)"
    using th [THEN conjunct2, THEN conjunct2, THEN conjunct2, THEN conjunct2,
        THEN conjunct1]
    unfolding result_first_def by blast
  have "rawResponse env_groq (groqRes ext_offline) (geminiRes ext_offline) = None"
    by (simp add: rawResponse_def env_groq_def env_unconfigured_def ext_offline_def ascii_def)
  then have c6: "ai_insight (analysisResult env_groq user1 analyze_f1 ext_offline (db sys_f1))
       = placeholder_insight"
    using th [THEN conjunct2, THEN conjunct2, THEN conjunct2, THEN conjunct2,
        THEN conjunct2, THEN conjunct1] by blast
  have "rawResponse env_unconfigured (groqRes ext_offline) (geminiRes ext_offline) = Some []
      \<and> JSON_parse ext_offline [] = None"
    by (simp add: rawResponse_def env_unconfigured_def ext_offline_def parse_braces_def)
  then have c7: "ai_insight result_first = placeholder_insight"
    using th [THEN conjunct2, THEN conjunct2, THEN conjunct2, THEN conjunct2,
        THEN conjunct2, THEN conjunct2, THEN conjunct1]
    unfolding result_first_def by blast
  have c8: "is_object placeholder_insight"
    using th [THEN conjunct2, THEN conjunct2, THEN conjunct2, THEN conjunct2,
        THEN conjunct2, THEN conjunct2, THEN conjunct2, THEN conjunct1] .
  have c9: "snapshot_complete (Analysed result_first date1)"
    using th [THEN conjunct2, THEN conjunct2, THEN conjunct2, THEN conjunct2,
        THEN conjunct2, THEN conjunct2, THEN conjunct2, THEN conjunct2, THEN conjunct1]
      c5 c7 c8
    unfolding result_first_def by simp
  have "field_insert_ok create_f1 \<and> new_id create_f1 \<notin> dom (field_rows (db init_system))"
    by (simp add: create_f1_def init_system_def empty_store_def)
  then have c10: "field_rows (db (start_create user1 body_north create_f1 init_system))
        (ascii ''f1'') = Some field_f1"
    using th [THEN conjunct2, THEN conjunct2, THEN conjunct2, THEN conjunct2,
        THEN conjunct2, THEN conjunct2, THEN conjunct2, THEN conjunct2, THEN conjunct2]
    by (simp add: field_f1_def create_f1_def)
  from reachable_interleaved c1 c2 c3 c4 c5 c6 c7 c9 c10 show ?thesis
    by (intro conjI)
qed

text \<open>
  C8 as stated fails. Two runs on one field whose writes interleave, every write going
  through, leave a reachable state in which the snapshot is the result of the first
  run and the most recent analysis is that of the second. A run whose insert goes
  through and whose update fails leaves the field with a most recent analysis and the
  literal of its creation as snapshot. A run whose language-model call is rejected,
  while the weather reply lacks the temperature, overwrites the snapshot with a result
  whose temperature is missing.
\<close>

theorem stale_snapshot_counterexample:
  "reachable sys_interleaved
   \<and> latest_analysis (db sys_interleaved) (ascii ''f1'')
       = Some (analysis_row_of result_second (ascii ''f1''))
   \<and> \<not> snapshot_is_latest (db sys_interleaved) (ascii ''f1'')
   \<and> reachable sys_stale
   \<and> latest_analysis (db sys_stale) (ascii ''f1'')
       = Some (analysis_row_of result_first (ascii ''f1''))
   \<and> \<not> snapshot_is_latest (db sys_stale) (ascii ''f1'')
   \<and> reachable sys_gap
   \<and> rawResponse env_groq (groqRes ext_gap) (geminiRes ext_gap) = None
   \<and> field_rows (db sys_gap) (ascii ''f1'')
       = Some (field_f1\<lparr>last_analysis := Analysed result_gap date1\<rparr>)
   \<and> temp (result_weather result_gap) = NaN
   \<and> \<not> snapshot_complete (Analysed result_gap date1)"
  using reachable_interleaved interleaved_not_latest reachable_stale stale_not_latest
    reachable_gap gap_failed_call gap_written gap_incomplete
  by simp

end
